theory Spec2Isabelle
  imports Complex_Main "HOL-Library.Word"
begin

section \<open>The speed sampler (src/io/speed-sampler.js)\<close>

text \<open>
  JavaScript numbers are IEEE doubles. Byte counts are whole numbers far below \<open>2^53\<close>, on
  which addition is exact: they are natural numbers. Times are doubles
  (\<open>performance.now()\<close> gives fractions of a millisecond): they are reals, and they are
  compared as doubles are, exactly. The operations of the sampler that round, subtraction
  and division, are not computed by the model but asked of the runtime: \<open>fsub rt x y\<close> is
  the double that the machine gives for \<open>x - y\<close>, and \<open>fdiv rt x y\<close> the one for \<open>x / y\<close>.
  The sampler reads the clock through \<open>this._now()\<close>; \<open>reading rt k\<close> is the value of its
  k-th reading, and the sampler counts its readings.
\<close>

record Runtime =
  reading :: "nat \<Rightarrow> real"
  fsub :: "real \<Rightarrow> real \<Rightarrow> real"
  fdiv :: "real \<Rightarrow> real \<Rightarrow> real"

record SpeedSampler =
  firstCheckpoint :: real
  lastCheckpoint :: real
  intervalBytes :: nat
  totalBytes :: nat
  lastSecondBytes :: nat
  reads :: nat

definition SpeedSampler_new :: SpeedSampler where
  "SpeedSampler_new =
     \<lparr>firstCheckpoint = 0, lastCheckpoint = 0, intervalBytes = 0, totalBytes = 0,
      lastSecondBytes = 0, reads = 0\<rparr>"

definition reset :: "SpeedSampler \<Rightarrow> SpeedSampler" where
  "reset s = s\<lparr>firstCheckpoint := 0, lastCheckpoint := 0, totalBytes := 0,
                intervalBytes := 0, lastSecondBytes := 0\<rparr>"

definition now :: "Runtime \<Rightarrow> SpeedSampler \<Rightarrow> real \<times> SpeedSampler" where
  "now rt s = (reading rt (reads s), s\<lparr>reads := Suc (reads s)\<rparr>)"

definition addBytes :: "Runtime \<Rightarrow> nat \<Rightarrow> SpeedSampler \<Rightarrow> SpeedSampler" where
  "addBytes rt bytes s =
     (if firstCheckpoint s = 0 then
        (let (t, s1) = now rt s in
           s1\<lparr>firstCheckpoint := t, lastCheckpoint := t,
              intervalBytes := intervalBytes s1 + bytes,
              totalBytes := totalBytes s1 + bytes\<rparr>)
      else
        (let (t, s1) = now rt s in
           if fsub rt t (lastCheckpoint s1) < 1000 then
             s1\<lparr>intervalBytes := intervalBytes s1 + bytes,
                totalBytes := totalBytes s1 + bytes\<rparr>
           else
             (let s2 = s1\<lparr>lastSecondBytes := intervalBytes s1, intervalBytes := bytes,
                           totalBytes := totalBytes s1 + bytes\<rparr>;
                  (t2, s3) = now rt s2
              in s3\<lparr>lastCheckpoint := t2\<rparr>)))"

definition currentKBps :: "Runtime \<Rightarrow> SpeedSampler \<Rightarrow> real \<times> SpeedSampler" where
  "currentKBps rt s =
     (let s1 = addBytes rt 0 s;
          (t, s2) = now rt s1;
          durationSeconds = fdiv rt (fsub rt t (lastCheckpoint s2)) 1000;
          durationSeconds = (if durationSeconds = 0 then 1 else durationSeconds)
      in (fdiv rt (fdiv rt (real (intervalBytes s2)) durationSeconds) 1024, s2))"

definition lastSecondKBps :: "Runtime \<Rightarrow> SpeedSampler \<Rightarrow> real \<times> SpeedSampler" where
  "lastSecondKBps rt s =
     (let s1 = addBytes rt 0 s in
        if lastSecondBytes s1 \<noteq> 0 then (fdiv rt (real (lastSecondBytes s1)) 1024, s1)
        else
          (let (t, s2) = now rt s1 in
             if fsub rt t (lastCheckpoint s2) \<ge> 500 then currentKBps rt s2
             else (0, s2)))"

section \<open>Speed normalisation (IOController._normalizeSpeed, RangeLoader._normalizeSpeed)\<close>

text \<open>
  Reading an array outside its bounds gives \<open>undefined\<close>, and every comparison with
  \<open>undefined\<close> is false; \<open>None\<close> stands for \<open>undefined\<close>.
\<close>

definition elemAt :: "nat list \<Rightarrow> int \<Rightarrow> nat option" where
  "elemAt list i = (if 0 \<le> i \<and> i < int (length list) then Some (list ! nat i) else None)"

definition js_lt :: "real option \<Rightarrow> real option \<Rightarrow> bool" where
  "js_lt a b = (case a of None \<Rightarrow> False | Some x \<Rightarrow> (case b of None \<Rightarrow> False | Some y \<Rightarrow> x < y))"

definition js_ge :: "real option \<Rightarrow> real option \<Rightarrow> bool" where
  "js_ge a b = (case a of None \<Rightarrow> False | Some x \<Rightarrow> (case b of None \<Rightarrow> False | Some y \<Rightarrow> x \<ge> y))"

definition num :: "nat option \<Rightarrow> real option" where
  "num v = map_option real v"

function normalizeSpeed_loop :: "nat list \<Rightarrow> real \<Rightarrow> int \<Rightarrow> int \<Rightarrow> int \<Rightarrow> nat option" where
  "normalizeSpeed_loop list input lastIdx lbound ubound =
     (if lbound \<le> ubound then
        (let mid = lbound + (ubound - lbound) div 2 in
           if mid = lastIdx \<or> (js_ge (Some input) (num (elemAt list mid)) \<and>
                              js_lt (Some input) (num (elemAt list (mid + 1))))
           then elemAt list mid
           else if js_lt (num (elemAt list mid)) (Some input)
           then normalizeSpeed_loop list input lastIdx (mid + 1) ubound
           else normalizeSpeed_loop list input lastIdx lbound (mid - 1))
      else None)"
  by pat_completeness auto
termination
  by (relation "measure (\<lambda>(list, input, lastIdx, lbound, ubound). nat (ubound - lbound + 1))") auto

declare normalizeSpeed_loop.simps [simp del]

definition normalizeSpeed :: "nat list \<Rightarrow> real \<Rightarrow> nat option" where
  "normalizeSpeed list input =
     (let lastIdx = int (length list) - 1 in
        if js_lt (Some input) (num (elemAt list 0)) then elemAt list 0
        else normalizeSpeed_loop list input lastIdx 0 lastIdx)"

definition speedNormalizeList :: "nat list" where
  "speedNormalizeList = [64, 128, 256, 384, 512, 768, 1024, 1536, 2048, 3072, 4096]"

section \<open>Loaders (src/io/loader.js and the four transports)\<close>

type_synonym byte = "8 word"

datatype LoaderStatus = kIdle | kConnecting | kBuffering | kError | kComplete

datatype LoaderErrors =
  OK | EXCEPTION | HTTP_STATUS_CODE_INVALID | CONNECTING_TIMEOUT | EARLY_EOF
  | UNRECOVERABLE_EARLY_EOF

datatype LoaderClass = FetchStreamLoader | MozChunkedLoader | RangeLoader | WebSocketLoader

datatype exn = IllegalStateException | RuntimeException | RangeError | TypeError

record Range =
  range_from :: int
  range_to :: int

text \<open>
  \<open>None\<close> in a number field stands for \<open>undefined\<close> or \<open>null\<close>, which arithmetic reads
  as 0.
\<close>

definition numberOf :: "int option \<Rightarrow> int" where
  "numberOf v = (case v of None \<Rightarrow> 0 | Some n \<Rightarrow> n)"

text \<open>
  What a loader tells its owner: the callbacks it invokes, in order. A loader's handler
  returns the loader, the callbacks it invoked and the exception it raised, if any.
\<close>

datatype callback =
  ContentLengthKnown int
  | DataArrival "byte list" int int
  | Complete int int
  | Error LoaderErrors

text \<open>
  One record holds the fields the transports share. \<open>xhr\<close> says that an XMLHttpRequest
  is held; \<open>ws\<close> is the \<open>readyState\<close> of the WebSocket held, if any (0 connecting, 1 open,
  2 closing, 3 closed); the \<open>bound_\<close> fields say which callbacks are set. URL redirects,
  request headers and the events a browser fires inside \<open>xhr.abort()\<close> are not modelled.
\<close>

record Loader =
  cls :: LoaderClass
  status :: LoaderStatus
  needStash :: bool
  requestAbort :: bool
  xhr :: bool
  ws :: "nat option"
  loader_range :: "Range option"
  contentLength :: "int option"
  receivedLength :: int
  bound_onContentLengthKnown :: bool
  bound_onDataArrival :: bool
  bound_onError :: bool
  bound_onComplete :: bool

definition Loader_new :: "LoaderClass \<Rightarrow> Loader" where
  "Loader_new c =
     \<lparr>cls = c, status = kIdle, needStash = (c \<noteq> RangeLoader), requestAbort = False,
      xhr = False, ws = None, loader_range = None, contentLength = None, receivedLength = 0,
      bound_onContentLengthKnown = False, bound_onDataArrival = False,
      bound_onError = False, bound_onComplete = False\<rparr>"

definition loader_isWorking :: "'a Loader_scheme \<Rightarrow> bool" where
  "loader_isWorking l = (status l = kConnecting \<or> status l = kBuffering)"

definition loader_abort :: "'a Loader_scheme \<Rightarrow> 'a Loader_scheme" where
  "loader_abort l =
     (case cls l of
        FetchStreamLoader \<Rightarrow> l\<lparr>requestAbort := True\<rparr>
      | MozChunkedLoader \<Rightarrow> l\<lparr>requestAbort := True, status := kComplete\<rparr>
      | RangeLoader \<Rightarrow> l\<lparr>requestAbort := True, xhr := False, status := kComplete\<rparr>
      | WebSocketLoader \<Rightarrow>
          (let l1 = (if ws l = Some 0 \<or> ws l = Some 1
                     then l\<lparr>requestAbort := True, ws := Some 2\<rparr> else l)
           in l1\<lparr>ws := None, status := kComplete\<rparr>))"

definition base_destroy :: "'a Loader_scheme \<Rightarrow> 'a Loader_scheme" where
  "base_destroy l =
     l\<lparr>status := kIdle, bound_onContentLengthKnown := False, bound_onDataArrival := False,
       bound_onError := False, bound_onComplete := False\<rparr>"

definition loader_destroy :: "'a Loader_scheme \<Rightarrow> 'a Loader_scheme" where
  "loader_destroy l =
     (case cls l of
        FetchStreamLoader \<Rightarrow>
          base_destroy (if loader_isWorking l then loader_abort l else l)
      | MozChunkedLoader \<Rightarrow>
          base_destroy ((if loader_isWorking l then loader_abort l else l)\<lparr>xhr := False\<rparr>)
      | RangeLoader \<Rightarrow>
          base_destroy ((if loader_isWorking l then loader_abort l else l)\<lparr>xhr := False\<rparr>)
      | WebSocketLoader \<Rightarrow>
          base_destroy (if ws l \<noteq> None then loader_abort l else l))"

text \<open>
  \<open>open(dataSource, range)\<close> as its caller sees it. The requests complete later; only the
  WebSocket loader, which ignores the range, can fail at once, when the constructor of
  the socket throws (\<open>wsThrows\<close>): it then reports \<open>EXCEPTION\<close> through \<open>onError\<close>, or
  raises when no handler is bound. The sub-requests that the ranged loader issues from
  \<open>open\<close> on are modelled by \<open>range_open\<close> below.
\<close>

definition loader_open ::
  "bool \<Rightarrow> Range \<Rightarrow> Loader \<Rightarrow> Loader \<times> callback list \<times> exn option" where
  "loader_open wsThrows r l =
     (case cls l of
        FetchStreamLoader \<Rightarrow> (l\<lparr>loader_range := Some r, status := kConnecting\<rparr>, [], None)
      | MozChunkedLoader \<Rightarrow>
          (l\<lparr>loader_range := Some r, xhr := True, status := kConnecting\<rparr>, [], None)
      | RangeLoader \<Rightarrow>
          (l\<lparr>loader_range := Some r, status := kConnecting, xhr := True\<rparr>, [], None)
      | WebSocketLoader \<Rightarrow>
          (if wsThrows then
             (if bound_onError l then (l\<lparr>status := kError\<rparr>, [Error EXCEPTION], None)
              else (l\<lparr>status := kError\<rparr>, [], Some RuntimeException))
           else (l\<lparr>ws := Some 0, status := kConnecting\<rparr>, [], None)))"

subsection \<open>The fetch loader's promise handlers (FetchStreamLoader.open, _pump)\<close>

definition fetch_onCatch :: "Loader \<Rightarrow> Loader \<times> callback list \<times> exn option" where
  "fetch_onCatch l =
     (if bound_onError l then (l\<lparr>status := kError\<rparr>, [Error EXCEPTION], None)
      else (l\<lparr>status := kError\<rparr>, [], Some RuntimeException))"

text \<open>
  The response has arrived: \<open>ok\<close> says that its status is 2xx, \<open>lengthHeader\<close> is the
  parsed Content-Length header.
\<close>

definition fetch_onResponse ::
  "bool \<Rightarrow> int option \<Rightarrow> Loader \<Rightarrow> Loader \<times> callback list \<times> exn option" where
  "fetch_onResponse ok lengthHeader l =
     (if requestAbort l then (l\<lparr>requestAbort := False, status := kIdle\<rparr>, [], None)
      else if ok then
        (case lengthHeader of
           None \<Rightarrow> (l, [], None)
         | Some n \<Rightarrow>
             (l\<lparr>contentLength := Some n\<rparr>,
              if n \<noteq> 0 \<and> bound_onContentLengthKnown l then [ContentLengthKnown n] else [],
              None))
      else
        (if bound_onError l
         then (l\<lparr>status := kError\<rparr>, [Error HTTP_STATUS_CODE_INVALID], None)
         else (l\<lparr>status := kError\<rparr>, [], Some RuntimeException)))"

text \<open>
  One step of \<open>_pump\<close>: the reader returned \<open>None\<close> (done) or a chunk. An exception
  raised in the handler reaches the handler's own \<open>catch\<close>.
\<close>

definition fetch_onRead ::
  "byte list option \<Rightarrow> Loader \<Rightarrow> Loader \<times> callback list \<times> exn option" where
  "fetch_onRead result l =
     (case result of
        None \<Rightarrow>
          (if (case contentLength l of None \<Rightarrow> False | Some c \<Rightarrow> receivedLength l < c) then
             (if bound_onError l then (l\<lparr>status := kError\<rparr>, [Error EARLY_EOF], None)
              else fetch_onCatch (l\<lparr>status := kError\<rparr>))
           else
             (case loader_range l of
                None \<Rightarrow>
                  (if bound_onComplete l then fetch_onCatch (l\<lparr>status := kComplete\<rparr>)
                   else (l\<lparr>status := kComplete\<rparr>, [], None))
              | Some r \<Rightarrow>
                  (l\<lparr>status := kComplete\<rparr>,
                   if bound_onComplete l
                   then [Complete (range_from r) (range_from r + receivedLength l - 1)] else [],
                   None)))
      | Some chunk \<Rightarrow>
          (if requestAbort l then (l\<lparr>requestAbort := False, status := kComplete\<rparr>, [], None)
           else
             (case loader_range l of
                None \<Rightarrow> fetch_onCatch (l\<lparr>status := kBuffering\<rparr>)
              | Some r \<Rightarrow>
                  (let byteStart = range_from r + receivedLength l;
                       l1 = l\<lparr>status := kBuffering,
                              receivedLength := receivedLength l + int (length chunk)\<rparr>
                   in (l1,
                       if bound_onDataArrival l
                       then [DataArrival chunk byteStart (receivedLength l1)] else [],
                       None)))))"

subsection \<open>The ranged loader (src/io/xhr-range-loader.js)\<close>

text \<open>
  The ranged loader extends the shared record. \<open>requests\<close> lists the byte ranges of the
  requests it has issued, the latest last.
\<close>

record XhrRangeLoader = Loader +
  currentChunkSizeKB :: "nat option"
  currentSpeedNormalized :: "nat option"
  zeroSpeedChunkCount :: nat
  speedSampler_rl :: SpeedSampler
  waitForTotalLength :: bool
  totalLengthReceived :: bool
  currentRequestRange :: "Range option"
  totalLength_rl :: "int option"
  lastTimeLoaded :: int
  requests :: "Range list"

definition chunkSizeKBList :: "nat list" where
  "chunkSizeKBList =
     [128, 256, 384, 512, 768, 1024, 1536, 2048, 3072, 4096, 5120, 6144, 7168, 8192]"

definition onLadder :: "XhrRangeLoader \<Rightarrow> bool" where
  "onLadder l = (currentChunkSizeKB l \<in> Some ` set chunkSizeKBList)"

definition XhrRangeLoader_new :: XhrRangeLoader where
  "XhrRangeLoader_new =
     Loader.extend (Loader_new RangeLoader)
       (XhrRangeLoader.fields (Some 384) (Some 0) 0 SpeedSampler_new False False None None 0 [])"

definition internalOpen :: "Range \<Rightarrow> XhrRangeLoader \<Rightarrow> XhrRangeLoader" where
  "internalOpen r l = l\<lparr>lastTimeLoaded := 0, xhr := True, requests := requests l @ [r]\<rparr>"

text \<open>
  \<open>_openSubRange\<close>. When the chunk size is \<open>undefined\<close> the bounds are not numbers and
  no request is recorded; \<open>_range\<close> is set by \<open>open\<close> before any sub-range is opened.
\<close>

definition openSubRange :: "XhrRangeLoader \<Rightarrow> XhrRangeLoader" where
  "openSubRange l =
     (case (currentChunkSizeKB l, loader_range l) of
        (Some kb, Some r) \<Rightarrow>
          (let chunkSize = int kb * 1024;
               from = range_from r + receivedLength l;
               to = from + chunkSize;
               to = (case contentLength l of
                       None \<Rightarrow> to
                     | Some c \<Rightarrow> if to - range_from r \<ge> c then range_from r + c - 1 else to);
               req = \<lparr>range_from = from, range_to = to\<rparr>
           in internalOpen req (l\<lparr>currentRequestRange := Some req\<rparr>))
      | _ \<Rightarrow> l\<lparr>currentRequestRange := None\<rparr>)"

text \<open>\<open>open(dataSource, range)\<close>; \<open>filesize\<close> is \<open>dataSource.filesize\<close>.\<close>

definition range_open :: "int option \<Rightarrow> Range \<Rightarrow> XhrRangeLoader \<Rightarrow> XhrRangeLoader" where
  "range_open filesize r l =
     (let l1 = l\<lparr>loader_range := Some r, status := kConnecting\<rparr>;
          useRefTotalLength = (filesize \<noteq> None \<and> filesize \<noteq> Some 0);
          l2 = (if useRefTotalLength then l1\<lparr>totalLength_rl := filesize\<rparr> else l1)
      in if \<not> totalLengthReceived l2 \<and> \<not> useRefTotalLength
         then internalOpen \<lparr>range_from = 0, range_to = - 1\<rparr> (l2\<lparr>waitForTotalLength := True\<rparr>)
         else openSubRange l2)"

text \<open>
  \<open>_onProgress\<close> with the event's \<open>total\<close> and \<open>loaded\<close>. The probe request is aborted
  as soon as the total length is known. \<open>loaded\<close> counts the bytes of the current request
  and never decreases, so the sampler is given a natural number. Responses arrive only
  after \<open>open\<close>, which sets \<open>_range\<close>; the handlers leave a loader that was never opened
  as it is.
\<close>

definition range_onProgress ::
  "Runtime \<Rightarrow> int option \<Rightarrow> nat \<Rightarrow> XhrRangeLoader \<Rightarrow> XhrRangeLoader \<times> callback list" where
  "range_onProgress rt etotal eloaded l =
     (case loader_range l of
        None \<Rightarrow> (l, [])
      | Some r \<Rightarrow>
        if status l = kError then (l, [])
        else
          (let account = (\<lambda>l'. l'\<lparr>lastTimeLoaded := int eloaded,
                     speedSampler_rl :=
                       addBytes rt (nat (int eloaded - lastTimeLoaded l')) (speedSampler_rl l')\<rparr>)
           in if contentLength l = None then
                (let openNextRange = waitForTotalLength l;
                     l1 = (if waitForTotalLength l then
                             (let l' = l\<lparr>waitForTotalLength := False,
                                         totalLengthReceived := True, xhr := False\<rparr>
                              in if etotal \<noteq> None \<and> etotal \<noteq> Some 0
                                 then l'\<lparr>totalLength_rl := etotal\<rparr> else l')
                           else l);
                     l2 = (if range_to r = - 1
                           then l1\<lparr>contentLength :=
                                     Some (numberOf (totalLength_rl l1) - range_from r)\<rparr>
                           else l1\<lparr>contentLength := Some (range_to r - range_from r + 1)\<rparr>)
                 in if openNextRange then (openSubRange l2, [])
                    else (account l2,
                          if bound_onContentLengthKnown l2
                          then [ContentLengthKnown (numberOf (contentLength l2))] else []))
              else (account l, [])))"

text \<open>
  \<open>_onLoad\<close> with the response \<open>chunk\<close>: the chunk size for the next sub-range follows
  the measured speed, then the next sub-range is opened and the chunk is dispatched.
\<close>

definition range_onLoad ::
  "Runtime \<Rightarrow> byte list \<Rightarrow> XhrRangeLoader \<Rightarrow> XhrRangeLoader \<times> callback list" where
  "range_onLoad rt chunk l =
     (case loader_range l of
        None \<Rightarrow> (l, [])
      | Some r \<Rightarrow>
        if status l = kError then (l, [])
        else if waitForTotalLength l then (l\<lparr>waitForTotalLength := False\<rparr>, [])
        else
          (let l1 = l\<lparr>lastTimeLoaded := 0\<rparr>;
               (KBps, sm) = lastSecondKBps rt (speedSampler_rl l1);
               l2 = l1\<lparr>speedSampler_rl := sm\<rparr>;
               (KBps, l3) =
                 (if KBps = 0 then
                    (let l' = l2\<lparr>zeroSpeedChunkCount := zeroSpeedChunkCount l2 + 1\<rparr> in
                       if zeroSpeedChunkCount l' \<ge> 3 then
                         (let (k, sm') = currentKBps rt (speedSampler_rl l')
                          in (k, l'\<lparr>speedSampler_rl := sm'\<rparr>))
                       else (KBps, l'))
                  else (KBps, l2));
               l4 = (if KBps \<noteq> 0 then
                       (let normalized = normalizeSpeed chunkSizeKBList KBps in
                          if currentSpeedNormalized l3 \<noteq> normalized
                          then l3\<lparr>currentSpeedNormalized := normalized,
                                  currentChunkSizeKB := normalized\<rparr>
                          else l3)
                     else l3);
               byteStart = range_from r + receivedLength l4;
               l5 = l4\<lparr>receivedLength := receivedLength l4 + int (length chunk)\<rparr>;
               continue = (case contentLength l5 of
                             None \<Rightarrow> False | Some c \<Rightarrow> receivedLength l5 < c);
               l6 = (if continue then openSubRange l5 else l5);
               arrival = (if bound_onDataArrival l6
                          then [DataArrival chunk byteStart (receivedLength l6)] else [])
           in if continue then (l6, arrival)
              else (l6\<lparr>status := kComplete\<rparr>,
                    arrival @
                    (if bound_onComplete l6
                     then [Complete (range_from r) (range_from r + receivedLength l6 - 1)]
                     else []))))"

section \<open>The controller (IOController)\<close>

text \<open>
  Everything the controller shows to the outside is recorded in a trace: the calls of the
  consumer \<open>onDataArrival(chunks, byteStart)\<close> with the number of bytes it returned, the
  other callbacks of the upper layer, and the log lines. The callbacks do not call back
  into the controller. The model covers a controller from its construction to
  \<open>destroy()\<close>, so its loader is never \<open>null\<close>; offsets and sizes are integers.
\<close>

datatype event =
  Dispatch "byte list" int nat
  | Seeked
  | Errored LoaderErrors
  | Completed
  | RecoveredEarlyEof
  | LogLoaderError
  | LogDropped int
  | LogReconnect

text \<open>
  The environment: the consumer answers a dispatch with the number of bytes it consumed,
  and may depend on everything it has seen before (the trace); \<open>runtime\<close> gives the clock and
  the arithmetic of the controller's sampler; \<open>webSocketThrows\<close> says for which URLs the WebSocket constructor
  throws.
\<close>

record Env =
  consumer :: "event list \<Rightarrow> byte list \<Rightarrow> int \<Rightarrow> nat"
  runtime :: Runtime
  webSocketThrows :: "string \<Rightarrow> bool"

text \<open>
  A method returns a value in a new state, throws in the state reached so far, or never
  returns.
\<close>

datatype ('a, 's) outcome = Returned 'a 's | Thrown exn 's | Diverges

definition andThen ::
  "('a, 's) outcome \<Rightarrow> ('a \<Rightarrow> 's \<Rightarrow> ('b, 's) outcome) \<Rightarrow> ('b, 's) outcome" where
  "andThen m f =
     (case m of Returned a s \<Rightarrow> f a s | Thrown e s \<Rightarrow> Thrown e s | Diverges \<Rightarrow> Diverges)"

record IOController =
  isLive :: bool
  stashInitialSize :: int
  stashUsed :: int
  stashSize :: int
  bufferSize :: int
  stashBuffer :: "byte list"
  stashByteStart :: int
  enableStash :: bool
  loader :: Loader
  loaderClass :: LoaderClass
  url :: string
  totalLength :: "int option"
  fullRequestFlag :: bool
  currentRange :: "Range option"
  speedNormalized :: nat
  speedSampler :: SpeedSampler
  isEarlyEofReconnecting :: bool
  paused :: bool
  resumeFrom :: int
  onDataArrival :: bool
  onSeeked :: bool
  onError :: bool
  onComplete :: bool
  onRecoveredEarlyEof :: bool
  trace :: "event list"

definition emit :: "event \<Rightarrow> IOController \<Rightarrow> IOController" where
  "emit e s = s\<lparr>trace := trace s @ [e]\<rparr>"

definition createLoader :: "IOController \<Rightarrow> IOController" where
  "createLoader s =
     (let s1 = s\<lparr>loader := Loader_new (loaderClass s)\<rparr>;
          s2 = (if needStash (loader s1) = False then s1\<lparr>enableStash := False\<rparr> else s1)
      in s2\<lparr>loader := (loader s2)\<lparr>bound_onContentLengthKnown := True,
                 bound_onDataArrival := True, bound_onComplete := True,
                 bound_onError := True\<rparr>\<rparr>)"

text \<open>
  The constructor, from \<open>config.stashInitialSize\<close>, \<open>config.enableStashBuffer\<close>,
  \<open>config.isLive\<close>, the data source's \<open>url\<close> and \<open>filesize\<close>, and the loader class that
  \<open>_selectLoader\<close> chose (the choice depends on the browser and is not modelled).
\<close>

definition IOController_new ::
  "int option \<Rightarrow> bool option \<Rightarrow> bool \<Rightarrow> string \<Rightarrow> int option \<Rightarrow> LoaderClass \<Rightarrow> IOController"
  where
  "IOController_new cfgStashInitialSize cfgEnableStashBuffer cfgIsLive dsUrl dsFilesize lc =
     (let initialSize =
            (case cfgStashInitialSize of
               None \<Rightarrow> 1024 * 384
             | Some n \<Rightarrow> if n > 0 then n else 1024 * 384)
      in createLoader
           \<lparr>isLive = cfgIsLive, stashInitialSize = initialSize, stashUsed = 0,
            stashSize = initialSize, bufferSize = 1024 * 1024 * 3,
            stashBuffer = replicate (1024 * 1024 * 3) 0, stashByteStart = 0,
            enableStash = (cfgEnableStashBuffer \<noteq> Some False),
            loader = Loader_new lc, loaderClass = lc, url = dsUrl,
            totalLength = (if dsFilesize = None \<or> dsFilesize = Some 0 then None else dsFilesize),
            fullRequestFlag = False, currentRange = None, speedNormalized = 0,
            speedSampler = SpeedSampler_new, isEarlyEofReconnecting = False, paused = False,
            resumeFrom = 0, onDataArrival = False, onSeeked = False, onError = False,
            onComplete = False, onRecoveredEarlyEof = False, trace = []\<rparr>)"

definition isWorking :: "IOController \<Rightarrow> bool" where
  "isWorking s = (loader_isWorking (loader s) \<and> \<not> paused s)"

subsection \<open>Typed arrays over the stash buffer\<close>

text \<open>
  \<open>new Uint8Array(buffer, 0, len)\<close> exists when \<open>len\<close> bytes fit the buffer, and
  \<open>view.set(src, off)\<close> needs \<open>off + src.length\<close> within the view; both raise RangeError
  otherwise. \<open>buffer.slice(0, e)\<close> clamps its end.
\<close>

definition viewOk :: "byte list \<Rightarrow> int \<Rightarrow> bool" where
  "viewOk buffer len = (0 \<le> len \<and> len \<le> int (length buffer))"

definition arraySet :: "byte list \<Rightarrow> int \<Rightarrow> byte list \<Rightarrow> int \<Rightarrow> byte list option" where
  "arraySet buffer viewLen src off =
     (if 0 \<le> off \<and> off + int (length src) \<le> viewLen
      then Some (take (nat off) buffer @ src @ drop (nat off + length src) buffer)
      else None)"

definition slice0 :: "byte list \<Rightarrow> int \<Rightarrow> byte list" where
  "slice0 buffer e =
     (let n = int (length buffer);
          final = (if e < 0 then max (n + e) 0 else min e n)
      in take (nat final) buffer)"

definition stashSet ::
  "int \<Rightarrow> byte list \<Rightarrow> int \<Rightarrow> IOController \<Rightarrow> (unit, IOController) outcome" where
  "stashSet viewLen src off s =
     (if \<not> viewOk (stashBuffer s) viewLen then Thrown RangeError s
      else case arraySet (stashBuffer s) viewLen src off of
             None \<Rightarrow> Thrown RangeError s
           | Some b \<Rightarrow> Returned () (s\<lparr>stashBuffer := b\<rparr>))"

subsection \<open>_expandBuffer and _adjustStashSize\<close>

partial_function (option) expandLoop :: "int \<Rightarrow> int \<Rightarrow> int option" where
  "expandLoop bufferNewSize expectedBytes =
     (if bufferNewSize + 1024 * 1024 * 1 < expectedBytes
      then expandLoop (bufferNewSize * 2) expectedBytes
      else Some bufferNewSize)"

definition expandBuffer :: "int \<Rightarrow> IOController \<Rightarrow> (unit, IOController) outcome" where
  "expandBuffer expectedBytes s =
     (case expandLoop (stashSize s) expectedBytes of
        None \<Rightarrow> Diverges
      | Some n \<Rightarrow>
          (let bufferNewSize = n + 1024 * 1024 * 1 in
             if bufferNewSize = bufferSize s then Returned () s
             else if bufferNewSize < 0 then Thrown RangeError s
             else
               (let newBuffer = replicate (nat bufferNewSize) (0 :: byte) in
                  if stashUsed s > 0 then
                    (if \<not> viewOk (stashBuffer s) (stashUsed s) then Thrown RangeError s
                     else
                       (case arraySet newBuffer bufferNewSize
                               (take (nat (stashUsed s)) (stashBuffer s)) 0 of
                          None \<Rightarrow> Thrown RangeError s
                        | Some b \<Rightarrow>
                            Returned () (s\<lparr>stashBuffer := b, bufferSize := bufferNewSize\<rparr>)))
                  else Returned () (s\<lparr>stashBuffer := newBuffer, bufferSize := bufferNewSize\<rparr>))))"

definition adjustStashSize :: "nat \<Rightarrow> IOController \<Rightarrow> (unit, IOController) outcome" where
  "adjustStashSize normalized s =
     (let stashSizeKB =
            (if isLive s then normalized
             else if normalized < 512 then normalized
             else if normalized \<ge> 512 \<and> normalized \<le> 1024
             then nat \<lfloor>real normalized * 1.5\<rfloor>
             else normalized * 2);
          stashSizeKB = (if stashSizeKB > 8192 then 8192 else stashSizeKB);
          bufferSize' = int stashSizeKB * 1024 + 1024 * 1024 * 1
      in andThen (if bufferSize s < bufferSize' then expandBuffer bufferSize' s
                  else Returned () s)
           (\<lambda>_ s1. Returned () (s1\<lparr>stashSize := int stashSizeKB * 1024\<rparr>)))"

subsection \<open>_dispatchChunks and _flushStashBuffer\<close>

definition dispatchChunks ::
  "Env \<Rightarrow> byte list \<Rightarrow> int \<Rightarrow> IOController \<Rightarrow> (int, IOController) outcome" where
  "dispatchChunks env chunks byteStart s =
     (case currentRange s of
        None \<Rightarrow> Thrown TypeError s
      | Some r \<Rightarrow>
          (let s1 = s\<lparr>currentRange :=
                        Some (r\<lparr>range_to := byteStart + int (length chunks) - 1\<rparr>)\<rparr>
           in if \<not> onDataArrival s1 then Thrown TypeError s1
              else
                (let consumed = consumer env (trace s1) chunks byteStart
                 in Returned (int consumed) (emit (Dispatch chunks byteStart consumed) s1))))"

definition flushStashBuffer ::
  "Env \<Rightarrow> bool \<Rightarrow> IOController \<Rightarrow> (int, IOController) outcome" where
  "flushStashBuffer env dropUnconsumed s =
     (if stashUsed s > 0 then
        (let buffer = slice0 (stashBuffer s) (stashUsed s) in
           andThen (dispatchChunks env buffer (stashByteStart s) s)
             (\<lambda>consumed s1.
                (let remain = int (length buffer) - consumed;
                     finish = (\<lambda>s'. Returned remain (s'\<lparr>stashUsed := 0, stashByteStart := 0\<rparr>))
                 in if consumed < int (length buffer) then
                      (if dropUnconsumed then finish (emit (LogDropped remain) s1)
                       else if consumed > 0 then
                         (let remainArray = drop (nat consumed) buffer in
                            andThen (stashSet (bufferSize s1) remainArray 0 s1)
                              (\<lambda>_ s2. Returned 0
                                 (s2\<lparr>stashUsed := int (length remainArray),
                                     stashByteStart := stashByteStart s2 + consumed\<rparr>)))
                       else Returned 0 s1)
                    else finish s1)))
      else Returned 0 s)"

subsection \<open>_onLoaderChunkArrival\<close>

text \<open>The branch for a disabled stash: dispatch at once, keep what was not consumed.\<close>

definition arrival_stashDisabled ::
  "Env \<Rightarrow> byte list \<Rightarrow> int \<Rightarrow> IOController \<Rightarrow> (unit, IOController) outcome" where
  "arrival_stashDisabled env chunk byteStart s =
     (if stashUsed s = 0 then
        andThen (dispatchChunks env chunk byteStart s)
          (\<lambda>consumed s1.
             if consumed < int (length chunk) then
               (let remain = int (length chunk) - consumed in
                  andThen (if remain > bufferSize s1 then expandBuffer remain s1
                           else Returned () s1)
                    (\<lambda>_ s2.
                       andThen (stashSet (bufferSize s2) (drop (nat consumed) chunk) 0 s2)
                         (\<lambda>_ s3. Returned ()
                            (s3\<lparr>stashUsed := stashUsed s3 + remain,
                                stashByteStart := byteStart + consumed\<rparr>))))
             else Returned () s1)
      else
        andThen (if stashUsed s + int (length chunk) > bufferSize s
                 then expandBuffer (stashUsed s + int (length chunk)) s
                 else Returned () s)
          (\<lambda>_ s1.
             andThen (stashSet (bufferSize s1) chunk (stashUsed s1) s1)
               (\<lambda>_ s2.
                  (let s3 = s2\<lparr>stashUsed := stashUsed s2 + int (length chunk)\<rparr> in
                     andThen (dispatchChunks env (slice0 (stashBuffer s3) (stashUsed s3))
                                (stashByteStart s3) s3)
                       (\<lambda>consumed s4.
                          andThen
                            (if consumed < stashUsed s4 \<and> consumed > 0 then
                               (if consumed > int (length (stashBuffer s4))
                                then Thrown RangeError s4
                                else stashSet (bufferSize s4)
                                       (drop (nat consumed) (stashBuffer s4)) 0 s4)
                             else Returned () s4)
                            (\<lambda>_ s5. Returned ()
                               (s5\<lparr>stashUsed := stashUsed s5 - consumed,
                                   stashByteStart := stashByteStart s5 + consumed\<rparr>)))))))"

text \<open>The branch for an enabled stash: collect chunks until the stash would overflow.\<close>

definition arrival_stashEnabled ::
  "Env \<Rightarrow> byte list \<Rightarrow> int \<Rightarrow> IOController \<Rightarrow> (unit, IOController) outcome" where
  "arrival_stashEnabled env chunk byteStart s0 =
     (let s = (if stashUsed s0 = 0 \<and> stashByteStart s0 = 0
               then s0\<lparr>stashByteStart := byteStart\<rparr> else s0)
      in if stashUsed s + int (length chunk) \<le> stashSize s then
           andThen (stashSet (stashSize s) chunk (stashUsed s) s)
             (\<lambda>_ s1. Returned () (s1\<lparr>stashUsed := stashUsed s1 + int (length chunk)\<rparr>))
         else if \<not> viewOk (stashBuffer s) (bufferSize s) then Thrown RangeError s
         else if stashUsed s > 0 then
           (let buffer = slice0 (stashBuffer s) (stashUsed s) in
              andThen (dispatchChunks env buffer (stashByteStart s) s)
                (\<lambda>consumed s1.
                   andThen
                     (if consumed < int (length buffer) then
                        (if consumed > 0 then
                           (let remainArray = drop (nat consumed) buffer in
                              andThen (stashSet (bufferSize s1) remainArray 0 s1)
                                (\<lambda>_ s2. Returned ()
                                   (s2\<lparr>stashUsed := int (length remainArray),
                                       stashByteStart := stashByteStart s2 + consumed\<rparr>)))
                         else Returned () s1)
                      else Returned ()
                             (s1\<lparr>stashUsed := 0,
                                 stashByteStart := stashByteStart s1 + consumed\<rparr>))
                     (\<lambda>_ s3.
                        andThen (if stashUsed s3 + int (length chunk) > bufferSize s3
                                 then expandBuffer (stashUsed s3 + int (length chunk)) s3
                                 else Returned () s3)
                          (\<lambda>_ s4.
                             andThen (stashSet (bufferSize s4) chunk (stashUsed s4) s4)
                               (\<lambda>_ s5. Returned ()
                                  (s5\<lparr>stashUsed := stashUsed s5 + int (length chunk)\<rparr>))))))
         else
           andThen (dispatchChunks env chunk byteStart s)
             (\<lambda>consumed s1.
                if consumed < int (length chunk) then
                  (let remain = int (length chunk) - consumed in
                     andThen (if remain > bufferSize s1 then expandBuffer remain s1
                              else Returned () s1)
                       (\<lambda>_ s2.
                          andThen (stashSet (bufferSize s2) (drop (nat consumed) chunk) 0 s2)
                            (\<lambda>_ s3. Returned ()
                               (s3\<lparr>stashUsed := stashUsed s3 + remain,
                                   stashByteStart := byteStart + consumed\<rparr>))))
                else Returned () s1))"

text \<open>
  \<open>_normalizeSpeed\<close> returns \<open>undefined\<close> only when its search loop runs out, which
  lemma \<open>normalizeSpeed_speed_table\<close> excludes for the controller's ladder; the model
  raises TypeError there.
\<close>

definition onLoaderChunkArrival ::
  "Env \<Rightarrow> byte list \<Rightarrow> int \<Rightarrow> int \<Rightarrow> IOController \<Rightarrow> (unit, IOController) outcome" where
  "onLoaderChunkArrival env chunk byteStart received s0 =
     (if \<not> onDataArrival s0 then Thrown IllegalStateException s0
      else if paused s0 then Returned () s0
      else
        (let s1 = (if isEarlyEofReconnecting s0 then
                     (let s' = s0\<lparr>isEarlyEofReconnecting := False\<rparr>
                      in if onRecoveredEarlyEof s' then emit RecoveredEarlyEof s' else s')
                   else s0);
             s2 = s1\<lparr>speedSampler := addBytes (runtime env) (length chunk) (speedSampler s1)\<rparr>;
             (KBps, sm) = lastSecondKBps (runtime env) (speedSampler s2);
             s3 = s2\<lparr>speedSampler := sm\<rparr>
         in andThen
              (if KBps \<noteq> 0 then
                 (case normalizeSpeed speedNormalizeList KBps of
                    None \<Rightarrow> Thrown TypeError s3
                  | Some normalized \<Rightarrow>
                      if speedNormalized s3 \<noteq> normalized
                      then adjustStashSize normalized (s3\<lparr>speedNormalized := normalized\<rparr>)
                      else Returned () s3)
               else Returned () s3)
              (\<lambda>_ s4. if \<not> enableStash s4 then arrival_stashDisabled env chunk byteStart s4
                       else arrival_stashEnabled env chunk byteStart s4)))"

subsection \<open>Seeking, errors and the public methods\<close>

definition report :: "LoaderErrors \<Rightarrow> IOController \<Rightarrow> (unit, IOController) outcome" where
  "report type s =
     (if onError s then Returned () (emit (Errored type) s) else Thrown RuntimeException s)"

definition ctl_loaderOpen ::
  "Env \<Rightarrow> Range \<Rightarrow> IOController \<Rightarrow> IOController \<times> callback list \<times> exn option" where
  "ctl_loaderOpen env r s =
     (let (l, cbs, ex) = loader_open (webSocketThrows env (url s)) r (loader s)
      in (s\<lparr>loader := l\<rparr>, cbs, ex))"

lemma andThen_cong [fundef_cong]:
  "m = m' \<Longrightarrow> (\<And>a s. m' = Returned a s \<Longrightarrow> f a s = f' a s) \<Longrightarrow> andThen m f = andThen m' f'"
  by (cases m') (simp_all add: andThen_def)

text \<open>
  \<open>_onLoaderError\<close> and \<open>_internalSeek\<close> call each other: an early end of file
  reconnects through \<open>_internalSeek\<close>, and a loader that fails while it is opened reports
  \<open>EXCEPTION\<close> to \<open>_onLoaderError\<close> at once.
\<close>

function onLoaderError :: "Env \<Rightarrow> LoaderErrors \<Rightarrow> IOController \<Rightarrow> (unit, IOController) outcome"
  and internalSeek :: "Env \<Rightarrow> int \<Rightarrow> bool \<Rightarrow> IOController \<Rightarrow> (unit, IOController) outcome"
  where
  "onLoaderError env type s0 =
     andThen (flushStashBuffer env False (emit LogLoaderError s0))
       (\<lambda>_ s1.
          (let type1 = (if isEarlyEofReconnecting s1 then UNRECOVERABLE_EARLY_EOF else type);
               s2 = (if isEarlyEofReconnecting s1 then s1\<lparr>isEarlyEofReconnecting := False\<rparr>
                     else s1)
           in case type1 of
                EARLY_EOF \<Rightarrow>
                  (if \<not> isLive s2 \<and> totalLength s2 \<noteq> None \<and> totalLength s2 \<noteq> Some 0 then
                     (case currentRange s2 of
                        None \<Rightarrow> Thrown TypeError s2
                      | Some r \<Rightarrow>
                          (let nextFrom = range_to r + 1 in
                             if nextFrom < numberOf (totalLength s2) then
                               internalSeek env nextFrom False
                                 ((emit LogReconnect s2)\<lparr>isEarlyEofReconnecting := True\<rparr>)
                             else Returned () s2))
                   else report UNRECOVERABLE_EARLY_EOF s2)
              | _ \<Rightarrow> report type1 s2))"
| "internalSeek env bytes dropUnconsumed s0 =
     (let s1 = (if loader_isWorking (loader s0) then s0\<lparr>loader := loader_abort (loader s0)\<rparr>
                else s0)
      in andThen (flushStashBuffer env dropUnconsumed s1)
           (\<lambda>_ s2.
              (let s3 = s2\<lparr>loader := loader_destroy (loader s2)\<rparr>;
                   requestRange = \<lparr>range_from = bytes, range_to = - 1\<rparr>;
                   s4 = s3\<lparr>currentRange := Some \<lparr>range_from = range_from requestRange,
                                                   range_to = - 1\<rparr>,
                           speedSampler := reset (speedSampler s3),
                           stashSize := stashInitialSize s3\<rparr>;
                   s5 = createLoader s4;
                   (s6, cbs, ex) = ctl_loaderOpen env requestRange s5
               in case ex of
                    Some e \<Rightarrow> Thrown e s6
                  | None \<Rightarrow>
                      andThen (if cbs = [Error EXCEPTION] then onLoaderError env EXCEPTION s6
                               else Returned () s6)
                        (\<lambda>_ s7. Returned () (if onSeeked s7 then emit Seeked s7 else s7)))))"
  by pat_completeness auto
termination
  by (relation "measure (\<lambda>x. case x of
          Inl (env, type, s) \<Rightarrow> (if type = EARLY_EOF then 2 else 0)
        | Inr (env, bytes, dropUnconsumed, s) \<Rightarrow> 1)")
     (auto split: if_splits)

declare onLoaderError.simps [simp del] internalSeek.simps [simp del]

text \<open>\<open>open(optionalFrom)\<close>; a missing or zero \<open>optionalFrom\<close> asks for the whole resource.\<close>

definition ctl_open :: "Env \<Rightarrow> int option \<Rightarrow> IOController \<Rightarrow> (unit, IOController) outcome" where
  "ctl_open env optionalFrom s0 =
     (let given = (optionalFrom \<noteq> None \<and> optionalFrom \<noteq> Some 0);
          s1 = s0\<lparr>currentRange :=
                     Some \<lparr>range_from = (if given then numberOf optionalFrom else 0),
                           range_to = - 1\<rparr>\<rparr>;
          s2 = s1\<lparr>speedSampler := reset (speedSampler s1)\<rparr>;
          s3 = (if \<not> given then s2\<lparr>fullRequestFlag := True\<rparr> else s2);
          (s4, cbs, ex) =
            ctl_loaderOpen env \<lparr>range_from = (if given then numberOf optionalFrom else 0),
                                 range_to = - 1\<rparr> s3
      in case ex of
           Some e \<Rightarrow> Thrown e s4
         | None \<Rightarrow> if cbs = [Error EXCEPTION] then onLoaderError env EXCEPTION s4
                   else Returned () s4)"

definition ctl_abort :: "IOController \<Rightarrow> IOController" where
  "ctl_abort s0 =
     (let s1 = s0\<lparr>loader := loader_abort (loader s0)\<rparr>
      in if paused s1 then s1\<lparr>paused := False, resumeFrom := 0\<rparr> else s1)"

definition pause :: "IOController \<Rightarrow> (unit, IOController) outcome" where
  "pause s0 =
     (if isWorking s0 then
        (let s1 = s0\<lparr>loader := loader_abort (loader s0)\<rparr> in
           case currentRange s1 of
             None \<Rightarrow>
               Thrown TypeError
                 (if stashUsed s1 \<noteq> 0 then s1\<lparr>resumeFrom := stashByteStart s1\<rparr> else s1)
           | Some r \<Rightarrow>
               (let s2 = (if stashUsed s1 \<noteq> 0 then
                            s1\<lparr>resumeFrom := stashByteStart s1,
                               currentRange := Some (r\<lparr>range_to := stashByteStart s1 - 1\<rparr>)\<rparr>
                          else s1\<lparr>resumeFrom := range_to r + 1\<rparr>)
                in Returned () (s2\<lparr>stashUsed := 0, stashByteStart := 0, paused := True\<rparr>)))
      else Returned () s0)"

definition resume :: "Env \<Rightarrow> IOController \<Rightarrow> (unit, IOController) outcome" where
  "resume env s0 =
     (if paused s0 then
        (let s1 = s0\<lparr>paused := False\<rparr>;
             bytes = resumeFrom s1;
             s2 = s1\<lparr>resumeFrom := 0\<rparr>
         in internalSeek env bytes True s2)
      else Returned () s0)"

definition seek :: "Env \<Rightarrow> int \<Rightarrow> IOController \<Rightarrow> (unit, IOController) outcome" where
  "seek env bytes s0 =
     internalSeek env bytes True (s0\<lparr>paused := False, stashUsed := 0, stashByteStart := 0\<rparr>)"

definition onContentLengthKnown :: "int \<Rightarrow> IOController \<Rightarrow> IOController" where
  "onContentLengthKnown len s =
     (if len \<noteq> 0 \<and> fullRequestFlag s
      then s\<lparr>totalLength := Some len, fullRequestFlag := False\<rparr> else s)"

definition onLoaderComplete :: "Env \<Rightarrow> IOController \<Rightarrow> (unit, IOController) outcome" where
  "onLoaderComplete env s0 =
     andThen (flushStashBuffer env True s0)
       (\<lambda>_ s1. Returned () (if onComplete s1 then emit Completed s1 else s1))"

text \<open>
  Helpers for statements: the state an outcome ends in, and the dispatches of a trace as
  pairs of \<open>byteStart\<close> and the number of bytes consumed.
\<close>

definition stateOf :: "('a, IOController) outcome \<Rightarrow> IOController option" where
  "stateOf r = (case r of Returned _ s \<Rightarrow> Some s | Thrown _ s \<Rightarrow> Some s | Diverges \<Rightarrow> None)"

fun dispatches :: "event list \<Rightarrow> (int \<times> nat) list" where
  "dispatches [] = []"
| "dispatches (Dispatch chunks byteStart consumed # es) = (byteStart, consumed) # dispatches es"
| "dispatches (e # es) = dispatches es"

section \<open>Inputs of the scenarios\<close>

text \<open>
  The runtime of the scenarios. Its clock stands still at \<open>t\<close>. Its arithmetic is the
  machine's on the numbers of the scenarios: a multiple of \<open>1/1024\<close> of magnitude at most
  \<open>2^40\<close> is a double, the difference of two of them is a double again, and IEEE
  subtraction and division give the exact result whenever it is a double. Elsewhere the
  scenarios' runtime is left unspecified, so that a run evaluated below has stayed on
  such numbers.
\<close>

definition onGrid :: "real \<Rightarrow> bool" where
  "onGrid x = (x * 1024 \<in> \<int> \<and> \<bar>x\<bar> \<le> 2 ^ 40)"

definition gridSub :: "real \<Rightarrow> real \<Rightarrow> real" where
  "gridSub x y = (if onGrid x \<and> onGrid y then x - y else undefined)"

definition gridDiv :: "real \<Rightarrow> real \<Rightarrow> real" where
  "gridDiv x y = (if onGrid x \<and> onGrid y \<and> y \<noteq> 0 \<and> onGrid (x / y) then x / y else undefined)"

definition steady :: "real \<Rightarrow> Runtime" where
  "steady t = \<lparr>reading = (\<lambda>_. t), fsub = gridSub, fdiv = gridDiv\<rparr>"

text \<open>
  Environments with the clock standing at 1000 ms: a consumer that accepts every byte, a
  consumer that accepts 60 bytes of each dispatch, and a browser whose WebSocket
  constructor throws.
\<close>

definition envAll :: Env where
  "envAll = \<lparr>consumer = (\<lambda>_ chunk _. length chunk), runtime = steady 1000,
             webSocketThrows = (\<lambda>_. False)\<rparr>"

definition env60 :: Env where
  "env60 = \<lparr>consumer = (\<lambda>_ _ _. 60), runtime = steady 1000, webSocketThrows = (\<lambda>_. False)\<rparr>"

definition envWsFail :: Env where
  "envWsFail = \<lparr>consumer = (\<lambda>_ chunk _. length chunk), runtime = steady 1000,
                webSocketThrows = (\<lambda>_. True)\<rparr>"

text \<open>
  Controllers as constructed, with the consumer and the error handler bound: the default
  configuration on a resource of 1000 bytes, the same with the stash disabled, the
  default configuration on a resource of 1000000 bytes, and a live WebSocket source.
\<close>

definition ctl_default :: IOController where
  "ctl_default =
     (IOController_new None None False ''http://h/a.flv'' (Some 1000) FetchStreamLoader)
       \<lparr>onDataArrival := True, onError := True\<rparr>"

definition ctl_noStash :: IOController where
  "ctl_noStash =
     (IOController_new None (Some False) False ''http://h/a.flv'' (Some 1000) FetchStreamLoader)
       \<lparr>onDataArrival := True, onError := True, onSeeked := True\<rparr>"

definition ctl_large :: IOController where
  "ctl_large =
     (IOController_new None None False ''http://h/a.flv'' (Some 1000000) FetchStreamLoader)
       \<lparr>onDataArrival := True, onError := True\<rparr>"

definition ctl_ws :: IOController where
  "ctl_ws =
     (IOController_new None None True ''ws://h/live'' None WebSocketLoader)
       \<lparr>onDataArrival := True, onError := True\<rparr>"

text \<open>
  The stash-disabled controller after \<open>open()\<close> and a chunk of 100 bytes at offset 0 of
  which the consumer accepted 60, and the default controller after \<open>open()\<close> and a
  chunk of 600 bytes at offset 0.
\<close>

definition ctl_afterChunk :: IOController where
  "ctl_afterChunk =
     (case andThen (ctl_open env60 None ctl_noStash)
             (\<lambda>_ s. onLoaderChunkArrival env60 (replicate 100 0) 0 100 s) of
        Returned _ s \<Rightarrow> s
      | _ \<Rightarrow> ctl_noStash)"

definition ctl_after600 :: IOController where
  "ctl_after600 =
     (case andThen (ctl_open envAll None ctl_default)
             (\<lambda>_ s. onLoaderChunkArrival envAll (replicate 600 0) 0 600 s) of
        Returned _ s \<Rightarrow> s
      | _ \<Rightarrow> ctl_default)"

section \<open>Verified properties\<close>

subsection \<open>The arithmetic of the scenarios\<close>

lemma gridSub_eval: "onGrid x \<Longrightarrow> onGrid y \<Longrightarrow> gridSub x y = x - y"
  by (simp add: gridSub_def)

lemma gridDiv_eval:
  "onGrid x \<Longrightarrow> onGrid y \<Longrightarrow> y \<noteq> 0 \<Longrightarrow> onGrid (x / y) \<Longrightarrow> gridDiv x y = x / y"
  by (simp add: gridDiv_def)

subsection \<open>Speed normalisation\<close>

lemma normalizeSpeed_speed_table:
  "normalizeSpeed speedNormalizeList x = Some
     (if x < 128 then 64 else if x < 256 then 128 else if x < 384 then 256
      else if x < 512 then 384 else if x < 768 then 512 else if x < 1024 then 768
      else if x < 1536 then 1024 else if x < 2048 then 1536 else if x < 3072 then 2048
      else if x < 4096 then 3072 else 4096)"
  by (simp add: normalizeSpeed_def speedNormalizeList_def normalizeSpeed_loop.simps
      elemAt_def js_lt_def js_ge_def num_def Let_def)

text \<open>
  C3. For every input \<open>kbps > 0\<close> the controller's normalisation returns an entry of the
  ladder 64, 128, ..., 4096: the entry 64 for inputs below 64, and otherwise the largest
  entry that is at most \<open>kbps\<close>. The inputs 63, 64, 65, 383, 384, 385 and 5000 normalise
  to 64, 64, 64, 256, 384, 384 and 4096.
\<close>

theorem normalizeSpeed_largest_entry:
  assumes "0 < kbps"
  shows "(\<exists>r. normalizeSpeed speedNormalizeList kbps = Some r \<and> r \<in> set speedNormalizeList \<and>
            (kbps < 64 \<longrightarrow> r = 64) \<and>
            (64 \<le> kbps \<longrightarrow> real r \<le> kbps \<and>
               (\<forall>x\<in>set speedNormalizeList. real x \<le> kbps \<longrightarrow> x \<le> r))) \<and>
         map (normalizeSpeed speedNormalizeList) [63, 64, 65, 383, 384, 385, 5000] =
           [Some 64, Some 64, Some 64, Some 256, Some 384, Some 384, Some 4096]"
proof -
  have samples: "map (normalizeSpeed speedNormalizeList) [63, 64, 65, 383, 384, 385, 5000] =
           [Some 64, Some 64, Some 64, Some 256, Some 384, Some 384, Some 4096]"
    by (simp add: normalizeSpeed_speed_table)
  have general: "\<exists>r. normalizeSpeed speedNormalizeList kbps = Some r \<and> r \<in> set speedNormalizeList \<and>
            (kbps < 64 \<longrightarrow> r = 64) \<and>
            (64 \<le> kbps \<longrightarrow> real r \<le> kbps \<and>
               (\<forall>x\<in>set speedNormalizeList. real x \<le> kbps \<longrightarrow> x \<le> r))"
    unfolding normalizeSpeed_speed_table by (simp add: speedNormalizeList_def)
  from general samples show ?thesis by blast
qed

theorem normalizeSpeed_largest_entry_witness:
  "(0::real) < 385 \<and> normalizeSpeed speedNormalizeList 385 = Some 384"
  using normalizeSpeed_largest_entry [of 385] by (auto simp: speedNormalizeList_def)

subsection \<open>The speed sampler's observables\<close>

text \<open>
  C7 (as amended). Let the clock stand at \<open>t\<close> during a query, let \<open>s1\<close> be the sampler
  after the implicit \<open>addBytes(0)\<close>, and \<open>d\<close> the machine's difference of \<open>t\<close> and
  \<open>lastCheckpoint\<close>. Then \<open>currentKBps\<close> is \<open>intervalBytes\<close> divided by the duration in
  seconds, divided by 1024, both divisions the machine's; the duration in seconds is the
  machine's quotient of \<open>d\<close> and 1000, and when that is zero it is taken to be one second.
  \<open>lastSecondKBps\<close> is the machine's \<open>lastSecondBytes / 1024\<close> when \<open>lastSecondBytes > 0\<close>,
  else the current speed when \<open>d\<close> is at least 500, else 0. Of the machine's arithmetic
  the proof uses only that \<open>t\<close> minus \<open>t\<close> is zero.
\<close>

theorem sampler_observables:
  fixes rt :: Runtime and t :: real and s :: SpeedSampler
  assumes still: "reading rt = (\<lambda>_. t)" and zero: "fsub rt t t = 0"
  defines "s1 \<equiv> addBytes rt 0 s"
  defines "d \<equiv> fsub rt t (lastCheckpoint s1)"
  defines "seconds \<equiv> (if fdiv rt d 1000 = 0 then 1 else fdiv rt d 1000)"
  defines "cur \<equiv> fdiv rt (fdiv rt (real (intervalBytes s1)) seconds) 1024"
  shows "fst (currentKBps rt s) = cur \<and>
         fst (lastSecondKBps rt s) =
           (if lastSecondBytes s1 > 0 then fdiv rt (real (lastSecondBytes s1)) 1024
            else if d \<ge> 500 then cur
            else 0)"
proof -
  have a: "fst (currentKBps rt s) = cur"
    by (simp add: currentKBps_def now_def Let_def s1_def d_def seconds_def cur_def still)
  have b: "fst (lastSecondKBps rt s) =
           (if lastSecondBytes s1 > 0 then fdiv rt (real (lastSecondBytes s1)) 1024
            else if d \<ge> 500 then cur
            else 0)"
    using zero
    unfolding lastSecondKBps_def currentKBps_def now_def Let_def s1_def d_def seconds_def
      cur_def addBytes_def still
    by (auto simp: Let_def)
  from a b show ?thesis by simp
qed

theorem sampler_observables_witness:
  "reading (steady 1500) = (\<lambda>_. 1500) \<and> fsub (steady 1500) 1500 1500 = 0 \<and>
   fst (currentKBps (steady 1500) (addBytes (steady 1000) 2048 SpeedSampler_new)) = 4 \<and>
   fst (lastSecondKBps (steady 1500) (addBytes (steady 1000) 2048 SpeedSampler_new)) = 4"
  using sampler_observables [of "steady 1500" 1500 "addBytes (steady 1000) 2048 SpeedSampler_new"]
  by (simp add: addBytes_def now_def SpeedSampler_new_def Let_def steady_def gridSub_eval
      gridDiv_eval onGrid_def)

text \<open>
  The claim as stated, with \<open>max(1 ms, now - last_checkpoint)\<close> as the duration, fails
  when the query comes in the millisecond of the checkpoint: 1024 bytes have arrived at
  time 5, and at time 5 the code reports 1 KiB/s where the claim's formula gives 1000.
  Every operation of this run is exact in IEEE arithmetic.
\<close>

theorem sampler_zero_duration:
  "fst (currentKBps (steady 5) (addBytes (steady 5) 1024 SpeedSampler_new)) = 1 \<and>
   real (intervalBytes (addBytes (steady 5) 0 (addBytes (steady 5) 1024 SpeedSampler_new))) /
     max 1 (5 - lastCheckpoint (addBytes (steady 5) 0 (addBytes (steady 5) 1024 SpeedSampler_new)))
     * 1000 / 1024 = 1000"
  by (simp add: currentKBps_def addBytes_def now_def SpeedSampler_new_def Let_def steady_def
      gridSub_eval gridDiv_eval onGrid_def)

subsection \<open>The status of a loader after abort\<close>

text \<open>
  C8 (as amended). \<open>abort()\<close> leaves the chunked, the ranged and the WebSocket loader in
  \<open>kComplete\<close>. The fetch loader's \<open>abort()\<close> only sets \<open>requestAbort\<close> and leaves the
  status as it was; the status becomes \<open>kIdle\<close> when the pending response arrives, and
  \<open>kComplete\<close> when the next chunk is read.
\<close>

theorem abort_status:
  "(cls l = MozChunkedLoader \<or> cls l = RangeLoader \<or> cls l = WebSocketLoader
      \<longrightarrow> status (loader_abort l) = kComplete) \<and>
   (cls l = FetchStreamLoader \<longrightarrow>
      loader_abort l = l\<lparr>requestAbort := True\<rparr> \<and>
      status (loader_abort l) = status l \<and>
      status (fst (fetch_onResponse ok len (loader_abort l))) = kIdle \<and>
      status (fst (fetch_onRead (Some chunk) (loader_abort l))) = kComplete)"
  by (cases "cls l") (simp_all add: loader_abort_def fetch_onResponse_def fetch_onRead_def Let_def)

theorem abort_status_witness:
  "status (loader_abort (fst (loader_open False \<lparr>range_from = 0, range_to = - 1\<rparr>
       (Loader_new WebSocketLoader)))) = kComplete \<and>
   status (loader_abort (fst (loader_open False \<lparr>range_from = 0, range_to = - 1\<rparr>
       (Loader_new FetchStreamLoader)))) = kConnecting \<and>
   status (fst (fetch_onResponse True None (loader_abort (fst (loader_open False
       \<lparr>range_from = 0, range_to = - 1\<rparr> (Loader_new FetchStreamLoader)))))) = kIdle"
proof -
  let ?w = "fst (loader_open False \<lparr>range_from = 0, range_to = - 1\<rparr> (Loader_new WebSocketLoader))"
  let ?f = "fst (loader_open False \<lparr>range_from = 0, range_to = - 1\<rparr> (Loader_new FetchStreamLoader))"
  have w: "cls ?w = WebSocketLoader" and f: "cls ?f = FetchStreamLoader"
    and st: "status ?f = kConnecting"
    by (simp_all add: loader_open_def Loader_new_def)
  from w abort_status [of ?w] have "status (loader_abort ?w) = kComplete" by blast
  moreover from f abort_status [of ?f True None "[]"]
  have "status (loader_abort ?f) = status ?f"
    and "status (fst (fetch_onResponse True None (loader_abort ?f))) = kIdle" by blast+
  ultimately show ?thesis using st by simp
qed

text \<open>
  The claim as stated fails for both streaming loaders: a chunked loader that has been
  opened is in \<open>kComplete\<close> after \<open>abort()\<close>, and a fetch loader that has been opened is
  still in \<open>kConnecting\<close>, not in \<open>kIdle\<close>.
\<close>

theorem abort_not_idle:
  "status (loader_abort (fst (loader_open False \<lparr>range_from = 0, range_to = - 1\<rparr>
       (Loader_new MozChunkedLoader)))) = kComplete \<and>
   status (loader_abort (fst (loader_open False \<lparr>range_from = 0, range_to = - 1\<rparr>
       (Loader_new FetchStreamLoader)))) = kConnecting"
  by (simp add: loader_open_def Loader_new_def loader_abort_def)

subsection \<open>The sub-ranges of the ranged loader\<close>

lemma normalizeSpeed_chunk_table:
  "normalizeSpeed chunkSizeKBList x = Some
     (if x < 256 then 128 else if x < 384 then 256 else if x < 512 then 384
      else if x < 768 then 512 else if x < 1024 then 768 else if x < 1536 then 1024
      else if x < 2048 then 1536 else if x < 3072 then 2048 else if x < 4096 then 3072
      else if x < 5120 then 4096 else if x < 6144 then 5120 else if x < 7168 then 6144
      else if x < 8192 then 7168 else 8192)"
  by (simp add: normalizeSpeed_def chunkSizeKBList_def normalizeSpeed_loop.simps
      elemAt_def js_lt_def js_ge_def num_def Let_def)

lemma normalizeSpeed_chunk_member:
  "normalizeSpeed chunkSizeKBList x \<in> Some ` set chunkSizeKBList"
  unfolding normalizeSpeed_chunk_table by (simp add: chunkSizeKBList_def)

lemma openSubRange_chunk: "currentChunkSizeKB (openSubRange l) = currentChunkSizeKB l"
  by (simp add: openSubRange_def internalOpen_def Let_def split: option.splits prod.splits)

lemma range_onLoad_onLadder: "onLadder l \<Longrightarrow> onLadder (fst (range_onLoad c chunk l))"
  using normalizeSpeed_chunk_member
  by (auto simp: onLadder_def range_onLoad_def Let_def openSubRange_chunk
      split: option.splits prod.splits if_splits)

lemma range_onProgress_onLadder: "onLadder l \<Longrightarrow> onLadder (fst (range_onProgress c t n l))"
  by (auto simp: onLadder_def range_onProgress_def Let_def openSubRange_chunk
      split: option.splits prod.splits if_splits)

lemma range_open_onLadder: "onLadder l \<Longrightarrow> onLadder (range_open f r l)"
  by (auto simp: onLadder_def range_open_def Let_def openSubRange_chunk internalOpen_def
      split: option.splits prod.splits if_splits)

text \<open>
  C9 (as amended). The chunk size of the ranged loader starts at 384 KiB and is a value of
  the ladder 128, ..., 8192 after every step of the loader. A sub-range starts at
  \<open>range.from + received_length\<close> and ends at its start plus the chunk size in bytes;
  once \<open>content_length\<close> is known, an end at or past \<open>range.from + content_length\<close> is
  replaced by \<open>range.from + content_length - 1\<close>, so that no sub-range extends past it.
\<close>

theorem range_loader_subranges:
  "currentChunkSizeKB XhrRangeLoader_new = Some 384 \<and> onLadder XhrRangeLoader_new \<and>
   (onLadder l \<longrightarrow>
      onLadder (range_open filesize r l) \<and>
      onLadder (fst (range_onProgress c etotal eloaded l)) \<and>
      onLadder (fst (range_onLoad c chunk l)) \<and>
      onLadder (openSubRange l) \<and> onLadder (loader_abort l)) \<and>
   (currentChunkSizeKB l = Some kb \<and> loader_range l = Some r' \<longrightarrow>
      (let from = range_from r' + receivedLength l;
           to = from + int kb * 1024;
           req = \<lparr>range_from = from,
                  range_to = (case contentLength l of
                                None \<Rightarrow> to
                              | Some n \<Rightarrow> if to - range_from r' \<ge> n
                                          then range_from r' + n - 1 else to)\<rparr>
       in currentRequestRange (openSubRange l) = Some req \<and>
          requests (openSubRange l) = requests l @ [req] \<and>
          (\<forall>n. contentLength l = Some n \<longrightarrow> range_to req \<le> range_from r' + n - 1)))"
proof -
  have init: "currentChunkSizeKB XhrRangeLoader_new = Some 384 \<and> onLadder XhrRangeLoader_new"
    by (simp add: XhrRangeLoader_new_def onLadder_def chunkSizeKBList_def Loader.extend_def
        XhrRangeLoader.fields_def Loader_new_def)
  have keep: "onLadder l \<longrightarrow>
      onLadder (range_open filesize r l) \<and>
      onLadder (fst (range_onProgress c etotal eloaded l)) \<and>
      onLadder (fst (range_onLoad c chunk l)) \<and>
      onLadder (openSubRange l) \<and> onLadder (loader_abort l)"
    using range_open_onLadder range_onProgress_onLadder range_onLoad_onLadder
    by (auto simp: onLadder_def openSubRange_chunk loader_abort_def Let_def
        split: LoaderClass.splits)
  have sub: "currentChunkSizeKB l = Some kb \<and> loader_range l = Some r' \<longrightarrow>
      (let from = range_from r' + receivedLength l;
           to = from + int kb * 1024;
           req = \<lparr>range_from = from,
                  range_to = (case contentLength l of
                                None \<Rightarrow> to
                              | Some n \<Rightarrow> if to - range_from r' \<ge> n
                                          then range_from r' + n - 1 else to)\<rparr>
       in currentRequestRange (openSubRange l) = Some req \<and>
          requests (openSubRange l) = requests l @ [req] \<and>
          (\<forall>n. contentLength l = Some n \<longrightarrow> range_to req \<le> range_from r' + n - 1))"
    by (auto simp: openSubRange_def internalOpen_def Let_def)
  from init keep sub show ?thesis by blast
qed

theorem range_loader_subranges_witness:
  "currentChunkSizeKB (fst (range_onProgress (steady 1) None 100
       (range_open (Some 1000) \<lparr>range_from = 0, range_to = - 1\<rparr> XhrRangeLoader_new))) = Some 384 \<and>
   contentLength (fst (range_onProgress (steady 1) None 100
       (range_open (Some 1000) \<lparr>range_from = 0, range_to = - 1\<rparr> XhrRangeLoader_new))) = Some 1000 \<and>
   currentRequestRange (openSubRange (fst (range_onProgress (steady 1) None 100
       (range_open (Some 1000) \<lparr>range_from = 0, range_to = - 1\<rparr> XhrRangeLoader_new)))) =
     Some \<lparr>range_from = 0, range_to = 999\<rparr>"
proof -
  let ?l = "fst (range_onProgress (steady 1) None 100
       (range_open (Some 1000) \<lparr>range_from = 0, range_to = - 1\<rparr> XhrRangeLoader_new))"
  have f: "currentChunkSizeKB ?l = Some 384"
    "loader_range ?l = Some \<lparr>range_from = 0, range_to = - 1\<rparr>"
    "contentLength ?l = Some 1000" "receivedLength ?l = 0"
    by (simp_all add: range_onProgress_def range_open_def openSubRange_def internalOpen_def
        XhrRangeLoader_new_def Loader.extend_def XhrRangeLoader.fields_def Loader_new_def
        Let_def numberOf_def)
  from range_loader_subranges [of ?l _ _ _ _ _ _ 384 "\<lparr>range_from = 0, range_to = - 1\<rparr>"] f
  show ?thesis by (simp add: Let_def)
qed

text \<open>
  The claim as stated, with a chunk size that starts at 128, fails on a fresh loader: its
  chunk size is 384, and for a resource of 1000 bytes the first sub-range it requests is
  0 to 393216 (the content length is not yet known when it is opened).
\<close>

theorem range_loader_first_request:
  "currentChunkSizeKB XhrRangeLoader_new = Some 384 \<and>
   requests (range_open (Some 1000) \<lparr>range_from = 0, range_to = - 1\<rparr> XhrRangeLoader_new) =
     [\<lparr>range_from = 0, range_to = 393216\<rparr>]"
  by (simp add: range_open_def openSubRange_def internalOpen_def
        XhrRangeLoader_new_def Loader.extend_def XhrRangeLoader.fields_def Loader_new_def
        Let_def)

subsection \<open>Growing the stash buffer\<close>

lemma expandLoop_doubles:
  "0 < n \<Longrightarrow> \<exists>k. expandLoop n e = Some (n * 2 ^ k) \<and> e \<le> n * 2 ^ k + 1048576 \<and>
                    (\<forall>j<k. n * 2 ^ j + 1048576 < e)"
proof (induction "nat (e - 1048576 - n)" arbitrary: n rule: less_induct)
  case less
  show ?case
  proof (cases "n + 1048576 < e")
    case True
    with less.prems have "nat (e - 1048576 - n * 2) < nat (e - 1048576 - n)" by simp
    from less.hyps [OF this] less.prems
    obtain k where k: "expandLoop (n * 2) e = Some (n * 2 * 2 ^ k)"
      "e \<le> n * 2 * 2 ^ k + 1048576" "\<forall>j<k. n * 2 * 2 ^ j + 1048576 < e"
      by auto
    have "expandLoop n e = Some (n * 2 ^ Suc k)"
      using True k(1) by (subst expandLoop.simps) (simp add: mult.assoc)
    moreover have "e \<le> n * 2 ^ Suc k + 1048576" using k(2) by (simp add: mult.assoc)
    moreover have "\<forall>j<Suc k. n * 2 ^ j + 1048576 < e"
    proof (intro allI impI)
      fix j assume "j < Suc k"
      show "n * 2 ^ j + 1048576 < e"
      proof (cases j)
        case 0 with True show ?thesis by simp
      next
        case (Suc i)
        with \<open>j < Suc k\<close> k(3) have "n * 2 * 2 ^ i + 1048576 < e" by simp
        with Suc show ?thesis by (simp add: mult.assoc)
      qed
    qed
    ultimately show ?thesis by blast
  next
    case False
    then have "expandLoop n e = Some (n * 2 ^ 0)"
      by (subst expandLoop.simps) simp
    with False show ?thesis by (intro exI [of _ 0]) simp
  qed
qed

lemma expandBuffer_returns:
  assumes "0 < stashSize s" and "stashUsed s \<le> int (length (stashBuffer s))"
    and "stashUsed s \<le> expectedBytes"
  shows "\<exists>k. (\<forall>j<k. stashSize s * 2 ^ j + 1048576 < expectedBytes) \<and>
           expectedBytes \<le> stashSize s * 2 ^ k + 1048576 \<and>
           expandBuffer expectedBytes s = Returned ()
             (if stashSize s * 2 ^ k + 1048576 = bufferSize s then s
              else s\<lparr>stashBuffer :=
                       take (nat (stashUsed s)) (stashBuffer s) @
                       replicate (nat (stashSize s * 2 ^ k + 1048576) - nat (stashUsed s)) 0,
                     bufferSize := stashSize s * 2 ^ k + 1048576\<rparr>)"
proof -
  from expandLoop_doubles [OF assms(1), of expectedBytes]
  obtain k where k: "expandLoop (stashSize s) expectedBytes = Some (stashSize s * 2 ^ k)"
    "expectedBytes \<le> stashSize s * 2 ^ k + 1048576"
    "\<forall>j<k. stashSize s * 2 ^ j + 1048576 < expectedBytes"
    by blast
  define m where "m = stashSize s * 2 ^ k + 1048576"
  have m: "expectedBytes \<le> m" "0 \<le> m" "stashUsed s \<le> m"
    using k(2) assms by (simp_all add: m_def)
  have "expandBuffer expectedBytes s = Returned ()
          (if m = bufferSize s then s
           else s\<lparr>stashBuffer := take (nat (stashUsed s)) (stashBuffer s) @
                      replicate (nat m - nat (stashUsed s)) 0,
                  bufferSize := m\<rparr>)"
  proof (cases "stashUsed s > 0")
    case True
    with assms(2)
    have len: "length (take (nat (stashUsed s)) (stashBuffer s)) = nat (stashUsed s)"
      by simp
    have fits: "int (nat (stashUsed s)) \<le> m" using True m(3) by simp
    show ?thesis
      using True m assms(2) fits
      by (simp add: expandBuffer_def k(1) m_def [symmetric] Let_def viewOk_def arraySet_def
          len del: length_take)
  next
    case False
    then show ?thesis
      using m by (simp add: expandBuffer_def k(1) m_def [symmetric] Let_def)
  qed
  with k show ?thesis unfolding m_def by (intro exI [of _ k]) simp
qed



subsection \<open>Adjusting the stash size\<close>

lemma clamp_8192: "(if (x::nat) > 8192 then 8192 else x) = min 8192 x"
  by simp

lemma adjustStashSize_returns:
  fixes n :: nat and s :: IOController
  assumes "0 < stashSize s" and "stashUsed s \<le> int (length (stashBuffer s))"
    and "stashUsed s \<le> bufferSize s"
  defines "kb \<equiv> min 8192 (if isLive s then n else if n < 512 then n
                           else if n \<ge> 512 \<and> n \<le> 1024 then nat \<lfloor>real n * 1.5\<rfloor>
                           else n * 2)"
  shows "\<exists>s'. adjustStashSize n s = Returned () s' \<and>
           stashSize s' = int kb * 1024 \<and>
           int kb * 1024 + 1048576 \<le> bufferSize s' \<and>
           (int kb * 1024 + 1048576 \<le> bufferSize s \<longrightarrow> s' = s\<lparr>stashSize := int kb * 1024\<rparr>) \<and>
           (bufferSize s < int kb * 1024 + 1048576 \<longrightarrow>
              (\<exists>k. bufferSize s' = stashSize s * 2 ^ k + 1048576 \<and>
                   (\<forall>j<k. stashSize s * 2 ^ j < int kb * 1024))) \<and>
           stashUsed s' = stashUsed s \<and> stashByteStart s' = stashByteStart s"
proof -
  have unfold: "adjustStashSize n s =
      andThen (if bufferSize s < int kb * 1024 + 1024 * 1024 * 1
               then expandBuffer (int kb * 1024 + 1024 * 1024 * 1) s else Returned () s)
        (\<lambda>_ s1. Returned () (s1\<lparr>stashSize := int kb * 1024\<rparr>))"
    unfolding adjustStashSize_def Let_def clamp_8192 kb_def ..
  show ?thesis
  proof (cases "bufferSize s < int kb * 1024 + 1048576")
    case False
    then have "adjustStashSize n s = Returned () (s\<lparr>stashSize := int kb * 1024\<rparr>)"
      unfolding unfold by (simp add: andThen_def)
    with False show ?thesis by simp
  next
    case True
    with assms(3) have "stashUsed s \<le> int kb * 1024 + 1048576" by simp
    from expandBuffer_returns [OF assms(1,2) this] obtain k where
      k: "\<forall>j<k. stashSize s * 2 ^ j + 1048576 < int kb * 1024 + 1048576"
         "int kb * 1024 + 1048576 \<le> stashSize s * 2 ^ k + 1048576"
         "expandBuffer (int kb * 1024 + 1048576) s = Returned ()
               (if stashSize s * 2 ^ k + 1048576 = bufferSize s then s
                else s\<lparr>stashBuffer :=
                         take (nat (stashUsed s)) (stashBuffer s) @
                         replicate (nat (stashSize s * 2 ^ k + 1048576) - nat (stashUsed s)) 0,
                       bufferSize := stashSize s * 2 ^ k + 1048576\<rparr>)"
      by blast
    from True k(2) have ne: "stashSize s * 2 ^ k + 1048576 \<noteq> bufferSize s" by simp
    have "adjustStashSize n s = Returned ()
            (s\<lparr>stashBuffer := take (nat (stashUsed s)) (stashBuffer s) @
                        replicate (nat (stashSize s * 2 ^ k + 1048576) - nat (stashUsed s)) 0,
               bufferSize := stashSize s * 2 ^ k + 1048576,
               stashSize := int kb * 1024\<rparr>)"
      unfolding unfold using True k(3) ne by (simp add: andThen_def)
    with True k(1,2) show ?thesis by auto
  qed
qed


lemma adjustStashSize_new_controller:
  "adjustStashSize 2048 (IOController_new None None False u None FetchStreamLoader) =
     Returned () ((IOController_new None None False u None FetchStreamLoader)
        \<lparr>stashBuffer := replicate 7340032 0, bufferSize := 7340032, stashSize := 4194304\<rparr>)"
  by (simp add: IOController_new_def createLoader_def Loader_new_def adjustStashSize_def
      expandBuffer_def expandLoop.simps andThen_def Let_def)

text \<open>
  C6 (as amended). In a controller whose stash size is positive and whose stash holds no
  more than its buffer, \<open>_adjustStashSize(normalized)\<close> returns with the stash size
  \<open>kb * 1024\<close>, where \<open>kb\<close> is \<open>normalized\<close> for a live stream or below 512,
  \<open>floor(normalized * 1.5)\<close> from 512 to 1024 and \<open>normalized * 2\<close> above, clamped at
  8192. A buffer of at least \<open>kb * 1024 + 1 MiB\<close> is left as it is; a smaller one is
  replaced through \<open>_expandBuffer\<close>, whose new size is the old stash size doubled until it
  reaches \<open>kb * 1024\<close>, plus 1 MiB: at least \<open>kb * 1024 + 1 MiB\<close>, not always equal to it.
  In a new controller (stash size 384 KiB, buffer 3 MiB) on demand, a normalised speed
  of 2048 gives a stash size of 4096 KiB and a buffer of 7 MiB.
\<close>

theorem adjustStashSize_spec:
  fixes n :: nat and s :: IOController
  assumes "0 < stashSize s" and "stashUsed s \<le> int (length (stashBuffer s))"
    and "stashUsed s \<le> bufferSize s"
  defines "kb \<equiv> min 8192 (if isLive s then n else if n < 512 then n
                           else if n \<ge> 512 \<and> n \<le> 1024 then nat \<lfloor>real n * 1.5\<rfloor>
                           else n * 2)"
  shows "(\<exists>s'. adjustStashSize n s = Returned () s' \<and>
           stashSize s' = int kb * 1024 \<and>
           int kb * 1024 + 1048576 \<le> bufferSize s' \<and>
           (int kb * 1024 + 1048576 \<le> bufferSize s \<longrightarrow> s' = s\<lparr>stashSize := int kb * 1024\<rparr>) \<and>
           (bufferSize s < int kb * 1024 + 1048576 \<longrightarrow>
              (\<exists>k. bufferSize s' = stashSize s * 2 ^ k + 1048576 \<and>
                   (\<forall>j<k. stashSize s * 2 ^ j < int kb * 1024))) \<and>
           stashUsed s' = stashUsed s \<and> stashByteStart s' = stashByteStart s) \<and>
         (case adjustStashSize 2048 (IOController_new None None False u None FetchStreamLoader) of
            Returned _ s' \<Rightarrow> stashSize s' = 4096 * 1024 \<and> bufferSize s' = 7 * (1024 * 1024)
          | _ \<Rightarrow> False)"
proof -
  have "case adjustStashSize 2048 (IOController_new None None False u None FetchStreamLoader) of
            Returned _ s' \<Rightarrow> stashSize s' = 4096 * 1024 \<and> bufferSize s' = 7 * (1024 * 1024)
          | _ \<Rightarrow> False"
    by (simp add: adjustStashSize_new_controller)
  with adjustStashSize_returns [OF assms(1-3), of n] show ?thesis
    unfolding kb_def by blast
qed

theorem adjustStashSize_spec_witness:
  "0 < stashSize ctl_default \<and> stashUsed ctl_default \<le> int (length (stashBuffer ctl_default)) \<and>
   stashUsed ctl_default \<le> bufferSize ctl_default \<and>
   (\<exists>s'. adjustStashSize 2048 ctl_default = Returned () s' \<and>
         stashSize s' = 4096 * 1024 \<and> 5 * 1024 * 1024 \<le> bufferSize s')"
proof -
  have h: "0 < stashSize ctl_default"
    "stashUsed ctl_default \<le> int (length (stashBuffer ctl_default))"
    "stashUsed ctl_default \<le> bufferSize ctl_default" "\<not> isLive ctl_default"
    by (simp_all add: ctl_default_def IOController_new_def createLoader_def Loader_new_def Let_def)
  from adjustStashSize_spec [OF h(1,2,3), of 2048] h(4) show ?thesis
    using h(1,2,3) by auto
qed

text \<open>
  The claim as stated, with a buffer of 5 MiB for a normalised speed of 2048 on demand,
  fails in a new controller (stash size 384 KiB, buffer 3 MiB): the stash size becomes
  4096 KiB and the buffer 7 MiB (384 KiB doubled four times, plus 1 MiB).
\<close>

theorem adjustStashSize_buffer_7MiB:
  "map_option bufferSize (stateOf (adjustStashSize 2048
       (IOController_new None None False [] None FetchStreamLoader))) = Some 7340032"
  by (simp add: adjustStashSize_new_controller stateOf_def)

subsection \<open>Scenarios\<close>

lemmas model_defs =
  IOController_new_def createLoader_def Loader_new_def ctl_open_def ctl_loaderOpen_def
  loader_open_def reset_def SpeedSampler_new_def numberOf_def
  onLoaderChunkArrival_def arrival_stashDisabled_def arrival_stashEnabled_def
  addBytes_def lastSecondKBps_def currentKBps_def now_def
  dispatchChunks_def emit_def stashSet_def viewOk_def arraySet_def slice0_def
  andThen_def loader_isWorking_def loader_abort_def loader_destroy_def base_destroy_def
  flushStashBuffer_def report_def internalSeek.simps onLoaderError.simps
  steady_def gridSub_eval gridDiv_eval onGrid_def

lemmas scenario_defs = envAll_def env60_def ctl_default_def ctl_noStash_def

lemma ctl_afterChunk_eq:
  "ctl_afterChunk =
     \<lparr>isLive = False, stashInitialSize = 393216, stashUsed = 40, stashSize = 393216,
      bufferSize = 3145728, stashBuffer = replicate 40 0 @ replicate 3145688 0,
      stashByteStart = 60, enableStash = False,
      loader = \<lparr>cls = FetchStreamLoader, status = kConnecting, needStash = True,
                 requestAbort = False, xhr = False, ws = None,
                 loader_range = Some \<lparr>range_from = 0, range_to = - 1\<rparr>,
                 contentLength = None, receivedLength = 0,
                 bound_onContentLengthKnown = True, bound_onDataArrival = True,
                 bound_onError = True, bound_onComplete = True\<rparr>,
      loaderClass = FetchStreamLoader, url = ''http://h/a.flv'', totalLength = Some 1000,
      fullRequestFlag = True, currentRange = Some \<lparr>range_from = 0, range_to = 99\<rparr>,
      speedNormalized = 0,
      speedSampler = \<lparr>firstCheckpoint = 1000, lastCheckpoint = 1000, intervalBytes = 100,
                       totalBytes = 100, lastSecondBytes = 0, reads = Suc (Suc (Suc 0))\<rparr>,
      isEarlyEofReconnecting = False, paused = False, resumeFrom = 0,
      onDataArrival = True, onSeeked = True, onError = True, onComplete = False,
      onRecoveredEarlyEof = False, trace = [Dispatch (replicate 100 0) 0 60]\<rparr>"
  by (simp add: ctl_afterChunk_def scenario_defs model_defs Let_def)

lemma ctl_after600_eq:
  "ctl_after600 =
     \<lparr>isLive = False, stashInitialSize = 393216, stashUsed = 600, stashSize = 393216,
      bufferSize = 3145728, stashBuffer = replicate 600 0 @ replicate 3145128 0,
      stashByteStart = 0, enableStash = True,
      loader = \<lparr>cls = FetchStreamLoader, status = kConnecting, needStash = True,
                 requestAbort = False, xhr = False, ws = None,
                 loader_range = Some \<lparr>range_from = 0, range_to = - 1\<rparr>,
                 contentLength = None, receivedLength = 0,
                 bound_onContentLengthKnown = True, bound_onDataArrival = True,
                 bound_onError = True, bound_onComplete = True\<rparr>,
      loaderClass = FetchStreamLoader, url = ''http://h/a.flv'', totalLength = Some 1000,
      fullRequestFlag = True, currentRange = Some \<lparr>range_from = 0, range_to = - 1\<rparr>,
      speedNormalized = 0,
      speedSampler = \<lparr>firstCheckpoint = 1000, lastCheckpoint = 1000, intervalBytes = 600,
                       totalBytes = 600, lastSecondBytes = 0, reads = Suc (Suc (Suc 0))\<rparr>,
      isEarlyEofReconnecting = False, paused = False, resumeFrom = 0,
      onDataArrival = True, onSeeked = False, onError = True, onComplete = False,
      onRecoveredEarlyEof = False, trace = []\<rparr>"
  by (simp add: ctl_after600_def scenario_defs model_defs Let_def)

subsection \<open>Pause\<close>

text \<open>
  What \<open>pause()\<close> assigns. On a controller that is not working it changes nothing. On a
  working controller (whose current range is set, as it is once a loader has been
  opened) it aborts the loader; with a stash in use it sets \<open>resumeFrom\<close> to the stash's
  byte start and the current range's end to the byte before, otherwise \<open>resumeFrom\<close> to
  the current range's end plus one; then it empties the stash and sets \<open>paused\<close>.
\<close>

lemma pause_assignments:
  "(\<not> isWorking s \<longrightarrow> pause s = Returned () s) \<and>
   (isWorking s \<and> currentRange s = Some r \<longrightarrow>
      pause s = Returned ()
        (s\<lparr>loader := loader_abort (loader s),
           resumeFrom := (if stashUsed s \<noteq> 0 then stashByteStart s else range_to r + 1),
           currentRange := Some (if stashUsed s \<noteq> 0 then r\<lparr>range_to := stashByteStart s - 1\<rparr>
                                 else r),
           stashUsed := 0, stashByteStart := 0, paused := True\<rparr>))"
  by (simp add: pause_def Let_def)

text \<open>
  After a chunk of 100 bytes at offset 0 of which the consumer accepted 60, \<open>pause()\<close>
  leaves \<open>resumeFrom = 60\<close>, the current range's end at 59 and an empty stash, and
  \<open>resume()\<close> opens the new loader at 60: here the next byte owed.
\<close>

lemma pause_after_chunk:
  "(case andThen (ctl_open env60 None ctl_noStash)
           (\<lambda>_ s. andThen (onLoaderChunkArrival env60 (replicate 100 0) 0 100 s)
           (\<lambda>_ s. pause s)) of
      Returned _ s \<Rightarrow>
        dispatches (trace s) = [(0, 60)] \<and> resumeFrom s = 60 \<and>
        currentRange s = Some \<lparr>range_from = 0, range_to = 59\<rparr> \<and>
        stashUsed s = 0 \<and> stashByteStart s = 0 \<and> paused s \<and> requestAbort (loader s)
    | _ \<Rightarrow> False) \<and>
   (case andThen (ctl_open env60 None ctl_noStash)
           (\<lambda>_ s. andThen (onLoaderChunkArrival env60 (replicate 100 0) 0 100 s)
           (\<lambda>_ s. andThen (pause s)
           (\<lambda>_ s. resume env60 s))) of
      Returned _ s \<Rightarrow>
        dispatches (trace s) = [(0, 60)] \<and>
        loader_range (loader s) = Some \<lparr>range_from = 60, range_to = - 1\<rparr> \<and>
        currentRange s = Some \<lparr>range_from = 60, range_to = - 1\<rparr> \<and> stashUsed s = 0
    | _ \<Rightarrow> False)"
  by (simp add: scenario_defs model_defs pause_def resume_def isWorking_def Let_def)

text \<open>
  C4 fails on the code. The default controller is opened at offset 1000 and paused
  before its loader has delivered anything. The consumer has received nothing, so the
  next byte owed is 1000. The current range's end is still \<open>-1\<close>, the mark of a range
  without an end that \<open>open\<close> has set and that only a dispatch replaces by an offset;
  \<open>pause()\<close> adds one to it, \<open>resumeFrom\<close> is 0, and \<open>resume()\<close> opens the new loader at
  offset 0.
\<close>

theorem pause_before_first_dispatch:
  "(case ctl_open envAll (Some 1000) ctl_default of
      Returned _ s \<Rightarrow>
        isWorking s \<and> trace s = [] \<and> stashUsed s = 0 \<and>
        currentRange s = Some \<lparr>range_from = 1000, range_to = - 1\<rparr> \<and>
        loader_range (loader s) = Some \<lparr>range_from = 1000, range_to = - 1\<rparr>
    | _ \<Rightarrow> False) \<and>
   (case andThen (ctl_open envAll (Some 1000) ctl_default) (\<lambda>_ s. pause s) of
      Returned _ s \<Rightarrow>
        paused s \<and> resumeFrom s = 0 \<and> trace s = [] \<and>
        currentRange s = Some \<lparr>range_from = 1000, range_to = - 1\<rparr>
    | _ \<Rightarrow> False) \<and>
   (case andThen (ctl_open envAll (Some 1000) ctl_default)
           (\<lambda>_ s. andThen (pause s)
           (\<lambda>_ s. resume envAll s)) of
      Returned _ s \<Rightarrow>
        isWorking s \<and> trace s = [] \<and>
        currentRange s = Some \<lparr>range_from = 0, range_to = - 1\<rparr> \<and>
        loader_range (loader s) = Some \<lparr>range_from = 0, range_to = - 1\<rparr>
    | _ \<Rightarrow> False)"
  by (simp add: scenario_defs model_defs pause_def resume_def isWorking_def Let_def)

subsection \<open>Seek\<close>

lemma flush_empty: "stashUsed s \<le> 0 \<Longrightarrow> flushStashBuffer env d s = Returned 0 s"
  by (simp add: flushStashBuffer_def)

text \<open>
  C10 (as amended). In every state of the controller \<open>seek(bytes)\<close> returns, or raises the
  RuntimeException of an unbound error handler, without a call of \<open>onDataArrival\<close> and
  without a log line about dropped bytes; the stash is empty afterwards. Unless the new
  loader fails while it is opened (a WebSocket whose constructor throws), the only
  callback invoked is \<open>onSeeked\<close>, when it is bound; when the loader fails, the failure
  is logged and reported through \<open>onError\<close> as well.
\<close>

theorem seek_never_dispatches:
  "\<exists>s' evs. (seek env bytes s = Returned () s' \<or> seek env bytes s = Thrown RuntimeException s') \<and>
      trace s' = trace s @ evs \<and> dispatches evs = [] \<and>
      set evs \<subseteq> {Seeked, LogLoaderError, Errored EXCEPTION, Errored UNRECOVERABLE_EARLY_EOF} \<and>
      stashUsed s' = 0 \<and> stashByteStart s' = 0 \<and>
      (\<not> (loaderClass s = WebSocketLoader \<and> webSocketThrows env (url s)) \<longrightarrow>
         seek env bytes s = Returned () s' \<and> evs = (if onSeeked s then [Seeked] else []))"
  by (cases "loaderClass s")
     (auto simp: seek_def internalSeek.simps onLoaderError.simps flush_empty andThen_def
        createLoader_def ctl_loaderOpen_def loader_open_def Loader_new_def report_def emit_def
        Let_def)

theorem seek_never_dispatches_witness:
  "stashUsed ctl_afterChunk = 40 \<and>
   (case seek env60 500 ctl_afterChunk of
      Returned _ s \<Rightarrow> trace s = trace ctl_afterChunk @ [Seeked] \<and> stashUsed s = 0
    | _ \<Rightarrow> False)"
proof -
  have h: "loaderClass ctl_afterChunk = FetchStreamLoader" "onSeeked ctl_afterChunk"
    "stashUsed ctl_afterChunk = 40"
    by (simp_all add: ctl_afterChunk_eq)
  from seek_never_dispatches [of env60 500 ctl_afterChunk] h
  show ?thesis by auto
qed

text \<open>
  The claim as stated, with \<open>onSeeked\<close> the only callback that \<open>seek\<close> may invoke, fails
  for a WebSocket source whose constructor throws: \<open>seek(0)\<close> invokes \<open>onError\<close> with
  \<open>EXCEPTION\<close>.
\<close>

theorem seek_reports_open_failure:
  "(case seek envWsFail 0 ctl_ws of
      Returned _ s \<Rightarrow> trace s = [LogLoaderError, Errored EXCEPTION]
    | _ \<Rightarrow> False)"
  by (simp add: envWsFail_def ctl_ws_def seek_def model_defs Let_def)

subsection \<open>Loader errors\<close>

lemma flush_keeps:
  "flushStashBuffer env d s = Returned n s1 \<Longrightarrow>
     isLive s1 = isLive s \<and> totalLength s1 = totalLength s \<and>
     isEarlyEofReconnecting s1 = isEarlyEofReconnecting s \<and> onError s1 = onError s"
  by (auto simp: flushStashBuffer_def dispatchChunks_def stashSet_def andThen_def emit_def
      Let_def split: if_splits option.splits)

text \<open>
  C1 (as amended). On an \<open>EarlyEof\<close> error the controller first logs the error and
  flushes the stash without dropping unconsumed bytes; let \<open>s1\<close> be the state after the
  flush, whose dispatch has moved the end of the current range. If no reconnection is
  under way, the stream is not live, the total length \<open>t\<close> is known and
  \<open>current_range.to + 1 < t\<close>, the controller sets \<open>early_eof_reconnecting\<close> and performs
  \<open>internal_seek(current_range.to + 1, drop_unconsumed = false)\<close>. If a reconnection is
  under way, the stream is live or the total length is unknown, the error is escalated
  to \<open>UnrecoverableEarlyEof\<close> and reported through \<open>onError\<close>, or raised as a
  RuntimeException when no handler is bound. In the remaining case, \<open>current_range.to + 1\<close>
  at or past a known total length of a stream that is not live, the handler returns
  without reporting anything.
\<close>

theorem onLoaderError_early_eof:
  assumes "flushStashBuffer env False (emit LogLoaderError s) = Returned n s1"
  shows "(\<not> isEarlyEofReconnecting s \<and> \<not> isLive s \<and> totalLength s = Some t \<and> t \<noteq> 0 \<and>
          currentRange s1 = Some r \<and> range_to r + 1 < t \<longrightarrow>
            onLoaderError env EARLY_EOF s =
              internalSeek env (range_to r + 1) False
                ((emit LogReconnect s1)\<lparr>isEarlyEofReconnecting := True\<rparr>)) \<and>
         (\<not> isEarlyEofReconnecting s \<and> \<not> isLive s \<and> totalLength s = Some t \<and> t \<noteq> 0 \<and>
          currentRange s1 = Some r \<and> t \<le> range_to r + 1 \<longrightarrow>
            onLoaderError env EARLY_EOF s = Returned () s1) \<and>
         (isEarlyEofReconnecting s \<or> isLive s \<or> totalLength s = None \<or> totalLength s = Some 0 \<longrightarrow>
            onLoaderError env EARLY_EOF s =
              (if onError s
               then Returned () (emit (Errored UNRECOVERABLE_EARLY_EOF)
                                   (s1\<lparr>isEarlyEofReconnecting := False\<rparr>))
               else Thrown RuntimeException (s1\<lparr>isEarlyEofReconnecting := False\<rparr>)))"
proof -
  from flush_keeps [OF assms]
  have keep: "isLive s1 = isLive s" "totalLength s1 = totalLength s"
    "isEarlyEofReconnecting s1 = isEarlyEofReconnecting s" "onError s1 = onError s"
    by (simp_all add: emit_def)
  have step: "onLoaderError env EARLY_EOF s =
      (let type1 = (if isEarlyEofReconnecting s1 then UNRECOVERABLE_EARLY_EOF else EARLY_EOF);
           s2 = (if isEarlyEofReconnecting s1 then s1\<lparr>isEarlyEofReconnecting := False\<rparr>
                 else s1)
       in case type1 of
            EARLY_EOF \<Rightarrow>
              (if \<not> isLive s2 \<and> totalLength s2 \<noteq> None \<and> totalLength s2 \<noteq> Some 0 then
                 (case currentRange s2 of
                    None \<Rightarrow> Thrown TypeError s2
                  | Some r \<Rightarrow>
                      (let nextFrom = range_to r + 1 in
                         if nextFrom < numberOf (totalLength s2) then
                           internalSeek env nextFrom False
                             ((emit LogReconnect s2)\<lparr>isEarlyEofReconnecting := True\<rparr>)
                         else Returned () s2))
               else report UNRECOVERABLE_EARLY_EOF s2)
          | _ \<Rightarrow> report type1 s2)"
    by (subst onLoaderError.simps) (simp add: assms andThen_def)
  have same: "\<not> isEarlyEofReconnecting s1 \<Longrightarrow> s1\<lparr>isEarlyEofReconnecting := False\<rparr> = s1"
    by simp
  show ?thesis
    unfolding step using keep
    by (auto simp: Let_def report_def numberOf_def same)
qed

theorem onLoaderError_early_eof_witness:
  "flushStashBuffer envAll False (emit LogLoaderError ctl_after600) =
     Returned 0 ((emit (Dispatch (replicate 600 0) 0 600) (emit LogLoaderError ctl_after600))
        \<lparr>currentRange := Some \<lparr>range_from = 0, range_to = 599\<rparr>,
          stashUsed := 0, stashByteStart := 0\<rparr>) \<and>
   \<not> isEarlyEofReconnecting ctl_after600 \<and> \<not> isLive ctl_after600 \<and>
   totalLength ctl_after600 = Some 1000 \<and>
   (case onLoaderError envAll EARLY_EOF ctl_after600 of
      Returned _ s \<Rightarrow>
        isEarlyEofReconnecting s \<and> status (loader s) = kConnecting \<and>
        loader_range (loader s) = Some \<lparr>range_from = 600, range_to = - 1\<rparr> \<and>
        currentRange s = Some \<lparr>range_from = 600, range_to = - 1\<rparr> \<and>
        trace s = [LogLoaderError, Dispatch (replicate 600 0) 0 600, LogReconnect]
    | _ \<Rightarrow> False)"
proof -
  let ?s1 = "(emit (Dispatch (replicate 600 0) 0 600) (emit LogLoaderError ctl_after600))
        \<lparr>currentRange := Some \<lparr>range_from = 0, range_to = 599\<rparr>,
          stashUsed := 0, stashByteStart := 0\<rparr>"
  have fl: "flushStashBuffer envAll False (emit LogLoaderError ctl_after600) = Returned 0 ?s1"
    by (simp add: ctl_after600_eq envAll_def flushStashBuffer_def dispatchChunks_def emit_def
        slice0_def andThen_def Let_def)
  have h: "\<not> isEarlyEofReconnecting ctl_after600" "\<not> isLive ctl_after600"
    "totalLength ctl_after600 = Some 1000"
    "currentRange ?s1 = Some \<lparr>range_from = 0, range_to = 599\<rparr>"
    by (simp_all add: ctl_after600_eq emit_def)
  from onLoaderError_early_eof [OF fl, of 1000 "\<lparr>range_from = 0, range_to = 599\<rparr>"] h
  have "onLoaderError envAll EARLY_EOF ctl_after600 =
          internalSeek envAll 600 False ((emit LogReconnect ?s1)\<lparr>isEarlyEofReconnecting := True\<rparr>)"
    by simp
  then show ?thesis using fl h
    by (simp add: ctl_after600_eq envAll_def model_defs Let_def)
qed

text \<open>
  The claim as stated fails in two ways. With all 1000 bytes of a resource delivered,
  an \<open>EarlyEof\<close> is neither escalated nor reported: the trace ends with the flush. And
  an \<open>EarlyEof\<close> that arrives while a reconnection is under way is escalated to
  \<open>UnrecoverableEarlyEof\<close> although the stream is not live and byte 600 of 1000 is owed.
\<close>

theorem onLoaderError_not_escalated:
  "(case andThen (ctl_open envAll None ctl_default)
           (\<lambda>_ s. andThen (onLoaderChunkArrival envAll (replicate 1000 0) 0 1000 s)
           (\<lambda>_ s. onLoaderError envAll EARLY_EOF s)) of
      Returned _ s \<Rightarrow>
        \<not> isLive s \<and> totalLength s = Some 1000 \<and> onError s \<and>
        currentRange s = Some \<lparr>range_from = 0, range_to = 999\<rparr> \<and>
        trace s = [LogLoaderError, Dispatch (replicate 1000 0) 0 1000]
    | _ \<Rightarrow> False) \<and>
   (case andThen (onLoaderError envAll EARLY_EOF ctl_after600)
           (\<lambda>_ s. onLoaderError envAll EARLY_EOF s) of
      Returned _ s \<Rightarrow>
        \<not> isLive s \<and> totalLength s = Some 1000 \<and>
        currentRange s = Some \<lparr>range_from = 600, range_to = - 1\<rparr> \<and>
        \<not> isEarlyEofReconnecting s \<and>
        trace s = [LogLoaderError, Dispatch (replicate 600 0) 0 600, LogReconnect,
                   LogLoaderError, Errored UNRECOVERABLE_EARLY_EOF]
    | _ \<Rightarrow> False)"
  by (simp add: ctl_after600_eq scenario_defs model_defs Let_def)

subsection \<open>Consumption accounting\<close>

text \<open>
  C2 fails on the code. The default controller is opened at offset 1000; a chunk of
  400000 bytes, larger than the stash, is dispatched at once at 1000 and consumed in
  full; the next chunk, 1000 bytes at offset 401000, is put into the empty stash, whose
  byte start is still 1000 because it is only set when it is 0; at the end of the
  stream the stash is dispatched at 1000 instead of 401000.
\<close>

theorem stale_byteStart_after_direct_dispatch:
  "(case andThen (ctl_open envAll (Some 1000) ctl_large)
      (\<lambda>_ s. andThen (onLoaderChunkArrival envAll (replicate 400000 0) 1000 400000 s)
      (\<lambda>_ s. andThen (onLoaderChunkArrival envAll (replicate 1000 1) 401000 401000 s)
      (\<lambda>_ s. onLoaderComplete envAll s))) of
      Returned _ s \<Rightarrow>
        trace s = [Dispatch (replicate 400000 0) 1000 400000,
                   Dispatch (replicate 1000 1) 1000 1000]
    | _ \<Rightarrow> False)"
  by (simp add: envAll_def ctl_large_def onLoaderComplete_def model_defs Let_def)

end
